theory Spec2Isabelle
  imports Main "HOL-Library.Sublist" "HOL-Library.AList"
begin

section \<open>The MCP client of claudius (src/agent/mcp\_client.py)\<close>

text \<open>
  The client keeps a dictionary of server entries and one request-id counter, starts one
  child process per server, talks line-delimited JSON-RPC to it and shuts all of them
  down at the end. The embedding below follows \<^verbatim>\<open>MCPClient\<close> method by method.

  Conventions.
  \<^item> A \<open>string\<close> stands for a Python \<^verbatim>\<open>str\<close> whose code points are below 256, one
    \<open>char\<close> per code point.
  \<^item> Values that come out of \<^verbatim>\<open>json.loads\<close> are of type \<open>json\<close>. The client never
    computes with floating-point numbers, so a float is carried as the text Python prints
    for it.
  \<^item> A Python \<^verbatim>\<open>dict\<close> is an association list in insertion order with distinct keys;
    \<open>map_of\<close> reads it and \<open>AList.update\<close> writes it (an existing key keeps its place, a
    new key goes to the end, as in Python).
  \<^item> A raised exception is a value \<open>Inl e\<close> of a sum type. Only subclasses of
    \<^verbatim>\<open>Exception\<close> are modelled; cancellation of the running task is not.
  \<^item> An awaited call on a child process returns or raises; what it does is read from the
    script of that process. A peer that never answers and never closes its output, and a
    process that never exits after the termination signal, are outside the model.
\<close>

subsection \<open>JSON values and exceptions\<close>

datatype json =
    JNull
  | JBool bool
  | JInt int
  | JFloat string
  | JStr string
  | JList "json list"
  | JObj "(string \<times> json) list"

datatype exn =
    Exception string
  | TypeError string
  | AttributeError string
  | KeyError string
  | OSError string

text \<open>\<^verbatim>\<open>str(e)\<close>: the message the exception was built with.\<close>

fun str_exn :: "exn \<Rightarrow> string" where
  "str_exn (Exception m) = m"
| "str_exn (TypeError m) = m"
| "str_exn (AttributeError m) = m"
| "str_exn (KeyError m) = m"
| "str_exn (OSError m) = m"

subsection \<open>Python's text rendering of values\<close>

definition squote :: char where
  "squote = CHR 0x27"

definition dquote :: char where
  "dquote = CHR 0x22"

definition backslash :: char where
  "backslash = CHR 0x5C"

text \<open>The pattern \<^verbatim>\<open>'{x}'\<close> of an f-string, for a \<^verbatim>\<open>str\<close> \<open>x\<close>.\<close>

definition sq :: "string \<Rightarrow> string" where
  "sq x = squote # x @ [squote]"

definition hex_digit :: "nat \<Rightarrow> char" where
  "hex_digit d = ''0123456789abcdef'' ! d"

definition dec_digit :: "nat \<Rightarrow> char" where
  "dec_digit d = ''0123456789'' ! d"

fun dec_nat :: "nat \<Rightarrow> string" where
  "dec_nat n = (if n < 10 then [dec_digit n] else dec_nat (n div 10) @ [dec_digit (n mod 10)])"

declare dec_nat.simps [simp del]

definition repr_int :: "int \<Rightarrow> string" where
  "repr_int i = (if i < 0 then CHR ''-'' # dec_nat (nat (- i)) else dec_nat (nat i))"

text \<open>
  \<^verbatim>\<open>repr\<close> of a \<^verbatim>\<open>str\<close>: single quotes, unless the text has a single quote and no
  double quote; the chosen quote and the backslash are escaped, tab, newline and carriage
  return are written \<^verbatim>\<open>\t \n \r\<close>, every other non-printable code point below 256
  is written \<^verbatim>\<open>\xhh\<close>.
\<close>

definition repr_quote :: "string \<Rightarrow> char" where
  "repr_quote s = (if squote \<in> set s \<and> dquote \<notin> set s then dquote else squote)"

definition nonprintable :: "char \<Rightarrow> bool" where
  "nonprintable c =
     ((of_char c :: nat) < 32 \<or> (of_char c :: nat) = 127 \<or>
      (128 \<le> (of_char c :: nat) \<and> (of_char c :: nat) \<le> 160) \<or> (of_char c :: nat) = 173)"

definition repr_char :: "char \<Rightarrow> char \<Rightarrow> string" where
  "repr_char q c =
     (if c = q \<or> c = backslash then [backslash, c]
      else if c = CHR 0x09 then [backslash, CHR ''t'']
      else if c = CHR 0x0A then [backslash, CHR ''n'']
      else if c = CHR 0x0D then [backslash, CHR ''r'']
      else if nonprintable c
        then [backslash, CHR ''x'', hex_digit (of_char c div 16), hex_digit (of_char c mod 16)]
      else [c])"

definition repr_str :: "string \<Rightarrow> string" where
  "repr_str s = repr_quote s # concat (map (repr_char (repr_quote s)) s) @ [repr_quote s]"

text \<open>\<^verbatim>\<open>", ".join(parts)\<close>\<close>

fun join_comma :: "string list \<Rightarrow> string" where
  "join_comma [] = []"
| "join_comma [x] = x"
| "join_comma (x # y # ys) = x @ '', '' @ join_comma (y # ys)"

text \<open>\<^verbatim>\<open>repr\<close> of a value made of \<^verbatim>\<open>None\<close>, booleans, numbers, strings, lists and dicts.\<close>

fun py_repr :: "json \<Rightarrow> string"
  and py_repr_list :: "json list \<Rightarrow> string list"
  and py_repr_items :: "(string \<times> json) list \<Rightarrow> string list" where
  "py_repr JNull = ''None''"
| "py_repr (JBool b) = (if b then ''True'' else ''False'')"
| "py_repr (JInt i) = repr_int i"
| "py_repr (JFloat f) = f"
| "py_repr (JStr s) = repr_str s"
| "py_repr (JList xs) = ''['' @ join_comma (py_repr_list xs) @ '']''"
| "py_repr (JObj kvs) = ''{'' @ join_comma (py_repr_items kvs) @ ''}''"
| "py_repr_list [] = []"
| "py_repr_list (x # xs) = py_repr x # py_repr_list xs"
| "py_repr_items [] = []"
| "py_repr_items ((k, v) # kvs) = (repr_str k @ '': '' @ py_repr v) # py_repr_items kvs"

text \<open>\<^verbatim>\<open>str(x)\<close>, which is what an f-string puts for \<^verbatim>\<open>{x}\<close>.\<close>

fun py_str :: "json \<Rightarrow> string" where
  "py_str (JStr s) = s"
| "py_str v = py_repr v"

text \<open>\<^verbatim>\<open>type(x).__name__\<close>, as the interpreter's error messages print it.\<close>

fun type_name :: "json \<Rightarrow> string" where
  "type_name JNull = ''NoneType''"
| "type_name (JBool _) = ''bool''"
| "type_name (JInt _) = ''int''"
| "type_name (JFloat _) = ''float''"
| "type_name (JStr _) = ''str''"
| "type_name (JList _) = ''list''"
| "type_name (JObj _) = ''dict''"

subsection \<open>The operators the client applies to decoded values\<close>

text \<open>\<^verbatim>\<open>k in x\<close> for a \<^verbatim>\<open>str\<close> \<open>k\<close>: key of a dict, element of a list, substring of a string.\<close>

fun py_in :: "string \<Rightarrow> json \<Rightarrow> exn + bool" where
  "py_in k (JObj kvs) = Inr (k \<in> set (map fst kvs))"
| "py_in k (JList xs) = Inr (JStr k \<in> set xs)"
| "py_in k (JStr s) = Inr (sublist k s)"
| "py_in k v = Inl (TypeError (''argument of type '' @ sq (type_name v) @ '' is not iterable''))"

text \<open>\<^verbatim>\<open>x[k]\<close> for a \<^verbatim>\<open>str\<close> \<open>k\<close>.\<close>

fun py_getitem :: "json \<Rightarrow> string \<Rightarrow> exn + json" where
  "py_getitem (JObj kvs) k =
     (case map_of kvs k of None \<Rightarrow> Inl (KeyError (repr_str k)) | Some v \<Rightarrow> Inr v)"
| "py_getitem (JList xs) k = Inl (TypeError ''list indices must be integers or slices, not str'')"
| "py_getitem (JStr s) k = Inl (TypeError (''string indices must be integers, not '' @ sq ''str''))"
| "py_getitem v k = Inl (TypeError (sq (type_name v) @ '' object is not subscriptable''))"

text \<open>\<^verbatim>\<open>x.get(k, d)\<close>: only a dict has the method.\<close>

fun py_get :: "json \<Rightarrow> string \<Rightarrow> json \<Rightarrow> exn + json" where
  "py_get (JObj kvs) k d = Inr (case map_of kvs k of None \<Rightarrow> d | Some v \<Rightarrow> v)"
| "py_get v k d =
     Inl (AttributeError (sq (type_name v) @ '' object has no attribute '' @ sq ''get''))"

text \<open>\<^verbatim>\<open>for t in x\<close>: the elements of a list, the keys of a dict, the characters of a string.\<close>

fun py_iter :: "json \<Rightarrow> exn + json list" where
  "py_iter (JList xs) = Inr xs"
| "py_iter (JObj kvs) = Inr (map (\<lambda>kv. JStr (fst kv)) kvs)"
| "py_iter (JStr s) = Inr (map (\<lambda>c. JStr [c]) s)"
| "py_iter v = Inl (TypeError (sq (type_name v) @ '' object is not iterable''))"

subsection \<open>Processes, server entries and the client\<close>

type_synonym pid = nat

text \<open>
  What one request round trip of \<^verbatim>\<open>_send_request\<close> meets: the write or the drain raises,
  the read or the UTF-8 decoding raises, the read returns no bytes, \<^verbatim>\<open>json.loads\<close>
  raises \<^verbatim>\<open>JSONDecodeError\<close>, or a value is decoded.
\<close>

datatype io_outcome =
    WriteRaises string
  | ReadRaises string
  | Eof
  | BadJson string
  | Reply json

text \<open>What \<^verbatim>\<open>asyncio.wait_for(process.wait(), timeout=2.0)\<close> meets on a running process.\<close>

datatype wait_outcome =
    Exits int
  | TimesOut
  | WaitRaises string

text \<open>
  The script of a child process: its answers to the successive requests (after the last
  one its output is closed), and what closing its input, waiting for it, signalling it and
  waiting again do.
\<close>

record script =
  replies :: "io_outcome list"
  close_raises :: "string option"
  on_wait_for :: wait_outcome
  terminate_raises :: "string option"
  on_wait :: "string + int"

record proc =
  has_stdin :: bool
  returncode :: "int option"
  behaviour :: script
  proc_command :: string
  proc_args :: "string list"
  proc_env :: "(string \<times> string) list"

text \<open>What \<^verbatim>\<open>asyncio.create_subprocess_exec\<close> does: it raises, or a process starts.\<close>

datatype spawn_outcome =
    SpawnRaises string
  | Spawned script

text \<open>The calls made on a process object, in the order they are made.\<close>

datatype action =
    Write json
  | CloseStdin
  | WaitFor nat
  | Terminate
  | Wait

text \<open>The value stored under a name in \<^verbatim>\<open>self.servers\<close>.\<close>

record server =
  process :: pid
  command :: string
  args :: "string list"
  available_tools :: json

text \<open>
  \<open>servers\<close> and \<open>request_id\<close> are the two fields of the \<^verbatim>\<open>MCPClient\<close> object. The other
  fields are its surroundings: the process objects by handle, the next unused handle, the
  log of calls on processes, the lines printed, and \<^verbatim>\<open>os.environ\<close>.
\<close>

record state =
  servers :: "(string \<times> server) list"
  request_id :: int
  procs :: "pid \<Rightarrow> proc"
  next_pid :: pid
  trace :: "(pid \<times> action) list"
  stdout :: "string list"
  environ :: "(string \<times> string) list"

text \<open>The \<^verbatim>\<open>config\<close> argument of \<^verbatim>\<open>connect_server\<close>; both keys are optional.\<close>

record config =
  cfg_args :: "string list option"
  cfg_env :: "(string \<times> string) list option"

text \<open>\<^verbatim>\<open>MCPClient.__init__\<close>\<close>

definition init :: "state \<Rightarrow> state" where
  "init s = s\<lparr>servers := [], request_id := 0\<rparr>"

text \<open>\<^verbatim>\<open>_next_request_id\<close>: increment, then return the new value.\<close>

definition next_request_id :: "state \<Rightarrow> state \<times> int" where
  "next_request_id s = (s\<lparr>request_id := request_id s + 1\<rparr>, request_id s + 1)"

definition log_action :: "pid \<Rightarrow> action \<Rightarrow> state \<Rightarrow> state" where
  "log_action p a s = s\<lparr>trace := trace s @ [(p, a)]\<rparr>"

definition print :: "string \<Rightarrow> state \<Rightarrow> state" where
  "print line s = s\<lparr>stdout := stdout s @ [line]\<rparr>"

subsection \<open>\<^verbatim>\<open>_send_request\<close>\<close>

definition communication_error :: "string \<Rightarrow> exn" where
  "communication_error m = Exception (''Communication error with server: '' @ m)"

definition send_request :: "state \<Rightarrow> string \<Rightarrow> json \<Rightarrow> state \<times> (exn + json)" where
  "send_request s server_name request =
     (case map_of (servers s) server_name of
        None \<Rightarrow> (s, Inl (Exception (''Server '' @ sq server_name @ '' not found'')))
      | Some server \<Rightarrow>
          (let p = process server;
               s1 = log_action p (Write request) s
           in case replies (behaviour (procs s1 p)) of
                [] \<Rightarrow> (s1, Inl (communication_error ''Server closed connection''))
              | r # rest \<Rightarrow>
                  (let pr = procs s1 p;
                       s2 = s1\<lparr>procs :=
                               (procs s1)(p := pr\<lparr>behaviour := (behaviour pr)\<lparr>replies := rest\<rparr>\<rparr>)\<rparr>
                   in case r of
                        WriteRaises m \<Rightarrow> (s2, Inl (communication_error m))
                      | ReadRaises m \<Rightarrow> (s2, Inl (communication_error m))
                      | Eof \<Rightarrow> (s2, Inl (communication_error ''Server closed connection''))
                      | BadJson m \<Rightarrow>
                          (s2, Inl (Exception (''Invalid JSON response from server: '' @ m)))
                      | Reply response \<Rightarrow> (s2, Inr response))))"

subsection \<open>\<^verbatim>\<open>_initialize_server\<close>\<close>

definition init_request :: "int \<Rightarrow> json" where
  "init_request rid =
     JObj [(''jsonrpc'', JStr ''2.0''), (''id'', JInt rid), (''method'', JStr ''initialize''),
           (''params'', JObj [(''protocolVersion'', JStr ''2024-11-05''),
                              (''capabilities'', JObj []),
                              (''clientInfo'', JObj [(''name'', JStr ''claudius''),
                                                     (''version'', JStr ''0.1.0'')])])]"

definition tools_request :: "int \<Rightarrow> json" where
  "tools_request rid =
     JObj [(''jsonrpc'', JStr ''2.0''), (''id'', JInt rid), (''method'', JStr ''tools/list''),
           (''params'', JObj [])]"

text \<open>
  Lines 121 and 122: \<open>Inr (Some tools)\<close> when both membership tests hold, \<open>Inr None\<close> when one
  of them is false, \<open>Inl e\<close> when a test or a subscript raises.
\<close>

definition discovered_tools :: "json \<Rightarrow> exn + json option" where
  "discovered_tools tools_response =
     (case py_in ''result'' tools_response of
        Inl e \<Rightarrow> Inl e
      | Inr False \<Rightarrow> Inr None
      | Inr True \<Rightarrow>
          (case py_getitem tools_response ''result'' of
             Inl e \<Rightarrow> Inl e
           | Inr result \<Rightarrow>
               (case py_in ''tools'' result of
                  Inl e \<Rightarrow> Inl e
                | Inr False \<Rightarrow> Inr None
                | Inr True \<Rightarrow>
                    (case py_getitem result ''tools'' of
                       Inl e \<Rightarrow> Inl e
                     | Inr tools \<Rightarrow> Inr (Some tools)))))"

definition initialize_error :: "string \<Rightarrow> exn \<Rightarrow> exn" where
  "initialize_error name e =
     Exception (''Failed to initialize server '' @ sq name @ '': '' @ str_exn e)"

definition initialize_server :: "state \<Rightarrow> string \<Rightarrow> state \<times> (exn + unit)" where
  "initialize_server s name =
     (case map_of (servers s) name of
        None \<Rightarrow> (s, Inl (Exception (''Server '' @ sq name @ '' not found'')))
      | Some server \<Rightarrow>
          (case next_request_id s of (s1, id1) \<Rightarrow>
           case send_request s1 name (init_request id1) of
             (s2, Inl e) \<Rightarrow> (s2, Inl (initialize_error name e))
           | (s2, Inr response) \<Rightarrow>
               (case next_request_id s2 of (s3, id2) \<Rightarrow>
                case send_request s3 name (tools_request id2) of
                  (s4, Inl e) \<Rightarrow> (s4, Inl (initialize_error name e))
                | (s4, Inr tools_response) \<Rightarrow>
                    (case discovered_tools tools_response of
                       Inl e \<Rightarrow> (s4, Inl (initialize_error name e))
                     | Inr None \<Rightarrow> (s4, Inr ())
                     | Inr (Some tools) \<Rightarrow>
                         (s4\<lparr>servers :=
                               AList.update name (server\<lparr>available_tools := tools\<rparr>) (servers s4)\<rparr>,
                          Inr ())))))"

subsection \<open>\<^verbatim>\<open>connect_server\<close>\<close>

definition connect_error :: "string \<Rightarrow> exn \<Rightarrow> exn" where
  "connect_error name e =
     Exception (''Failed to connect to MCP server '' @ sq name @ '': '' @ str_exn e)"

text \<open>\<^verbatim>\<open>d.update(e)\<close>\<close>

definition dict_update :: "('k \<times> 'v) list \<Rightarrow> ('k \<times> 'v) list \<Rightarrow> ('k \<times> 'v) list" where
  "dict_update d e = fold (\<lambda>kv. AList.update (fst kv) (snd kv)) e d"

definition connect_server ::
  "spawn_outcome \<Rightarrow> state \<Rightarrow> string \<Rightarrow> string \<Rightarrow> config \<Rightarrow> state \<times> (exn + unit)" where
  "connect_server spawn s name cmd cfg =
     (let args = (case cfg_args cfg of None \<Rightarrow> [] | Some a \<Rightarrow> a);
          env = (case cfg_env cfg of None \<Rightarrow> [] | Some e \<Rightarrow> e);
          server_env = dict_update (environ s) env
      in case spawn of
           SpawnRaises m \<Rightarrow> (s, Inl (connect_error name (OSError m)))
         | Spawned sc \<Rightarrow>
             (let p = next_pid s;
                  s1 = s\<lparr>procs := (procs s)(p := \<lparr>has_stdin = True, returncode = None,
                                                   behaviour = sc, proc_command = cmd,
                                                   proc_args = args, proc_env = server_env\<rparr>),
                         next_pid := p + 1\<rparr>;
                  s2 = s1\<lparr>servers :=
                           AList.update name
                             \<lparr>process = p, command = cmd, args = args, available_tools = JList []\<rparr>
                             (servers s1)\<rparr>
              in case initialize_server s2 name of
                   (s3, Inl e) \<Rightarrow> (s3, Inl (connect_error name e))
                 | (s3, Inr u) \<Rightarrow> (s3, Inr ())))"

subsection \<open>\<^verbatim>\<open>call_tool\<close>\<close>

text \<open>
  \<^verbatim>\<open>[t.get("name") for t in server["available_tools"]]\<close>: the first element that is not a
  dict raises; a dict without the key gives \<^verbatim>\<open>None\<close>.
\<close>

fun tool_names :: "json list \<Rightarrow> exn + json list" where
  "tool_names [] = Inr []"
| "tool_names (t # ts) =
     (case py_get t ''name'' JNull of
        Inl e \<Rightarrow> Inl e
      | Inr n \<Rightarrow> (case tool_names ts of Inl e \<Rightarrow> Inl e | Inr ns \<Rightarrow> Inr (n # ns)))"

definition available_tool_names :: "server \<Rightarrow> exn + json list" where
  "available_tool_names server =
     (case py_iter (available_tools server) of Inl e \<Rightarrow> Inl e | Inr ts \<Rightarrow> tool_names ts)"

definition tool_unavailable :: "string \<Rightarrow> string \<Rightarrow> json list \<Rightarrow> exn" where
  "tool_unavailable tool_name server_name names =
     Exception (''Tool '' @ sq tool_name @ '' not available on server '' @ sq server_name @
                ''. '' @ ''Available tools: '' @ py_repr (JList names))"

definition tool_request :: "int \<Rightarrow> string \<Rightarrow> json \<Rightarrow> json" where
  "tool_request rid tool_name arguments =
     JObj [(''jsonrpc'', JStr ''2.0''), (''id'', JInt rid), (''method'', JStr ''tools/call''),
           (''params'', JObj [(''name'', JStr tool_name), (''arguments'', arguments)])]"

text \<open>Lines 167 to 174: what the decoded response becomes.\<close>

definition call_result :: "json \<Rightarrow> exn + json" where
  "call_result response =
     (case py_in ''result'' response of
        Inl e \<Rightarrow> Inl e
      | Inr True \<Rightarrow> py_getitem response ''result''
      | Inr False \<Rightarrow>
          (case py_in ''error'' response of
             Inl e \<Rightarrow> Inl e
           | Inr True \<Rightarrow>
               (case py_getitem response ''error'' of
                  Inl e \<Rightarrow> Inl e
                | Inr err \<Rightarrow>
                    (case py_get err ''message'' (JStr ''Unknown error'') of
                       Inl e \<Rightarrow> Inl e
                     | Inr m \<Rightarrow> Inl (Exception (''Tool call error: '' @ py_str m))))
           | Inr False \<Rightarrow> Inr response))"

definition call_error :: "string \<Rightarrow> string \<Rightarrow> exn \<Rightarrow> exn" where
  "call_error tool_name server_name e =
     Exception (''Failed to call tool '' @ sq tool_name @ '' on server '' @ sq server_name @
                '': '' @ str_exn e)"

definition call_tool :: "state \<Rightarrow> string \<Rightarrow> string \<Rightarrow> json \<Rightarrow> state \<times> (exn + json)" where
  "call_tool s server_name tool_name arguments =
     (case map_of (servers s) server_name of
        None \<Rightarrow> (s, Inl (Exception (''Server '' @ sq server_name @ '' not connected'')))
      | Some server \<Rightarrow>
          (case available_tool_names server of
             Inl e \<Rightarrow> (s, Inl e)
           | Inr names \<Rightarrow>
               if JStr tool_name \<notin> set names
               then (s, Inl (tool_unavailable tool_name server_name names))
               else
                 (case next_request_id s of (s1, rid) \<Rightarrow>
                  case send_request s1 server_name (tool_request rid tool_name arguments) of
                    (s2, Inl e) \<Rightarrow> (s2, Inl (call_error tool_name server_name e))
                  | (s2, Inr response) \<Rightarrow>
                      (case call_result response of
                         Inl e \<Rightarrow> (s2, Inl (call_error tool_name server_name e))
                       | Inr v \<Rightarrow> (s2, Inr v)))))"

subsection \<open>\<^verbatim>\<open>disconnect_all\<close>\<close>

text \<open>The timeout of the graceful wait, in seconds.\<close>

definition graceful_timeout :: nat where
  "graceful_timeout = 2"

definition set_returncode :: "pid \<Rightarrow> int \<Rightarrow> state \<Rightarrow> state" where
  "set_returncode p code s = s\<lparr>procs := (procs s)(p := (procs s p)\<lparr>returncode := Some code\<rparr>)\<rparr>"

text \<open>
  \<^verbatim>\<open>process.terminate()\<close> followed by \<^verbatim>\<open>await process.wait()\<close>, the handler of the
  timeout.
\<close>

definition force_terminate :: "state \<Rightarrow> pid \<Rightarrow> state \<times> (exn + unit)" where
  "force_terminate s p =
     (let s1 = log_action p Terminate s
      in case terminate_raises (behaviour (procs s1 p)) of
           Some m \<Rightarrow> (s1, Inl (OSError m))
         | None \<Rightarrow>
             (let s2 = log_action p Wait s1
              in case on_wait (behaviour (procs s2 p)) of
                   Inl m \<Rightarrow> (s2, Inl (OSError m))
                 | Inr code \<Rightarrow> (set_returncode p code s2, Inr ())))"

text \<open>
  \<^verbatim>\<open>asyncio.wait_for(process.wait(), timeout=2.0)\<close> with its handler: a process whose
  return code is already known is not waited for.
\<close>

definition graceful_wait :: "state \<Rightarrow> pid \<Rightarrow> state \<times> (exn + unit)" where
  "graceful_wait s p =
     (let s1 = log_action p (WaitFor graceful_timeout) s
      in if returncode (procs s1 p) \<noteq> None then (s1, Inr ())
         else
           (case on_wait_for (behaviour (procs s1 p)) of
              Exits code \<Rightarrow> (set_returncode p code s1, Inr ())
            | WaitRaises m \<Rightarrow> (s1, Inl (OSError m))
            | TimesOut \<Rightarrow> force_terminate s1 p))"

text \<open>The body of the outer \<^verbatim>\<open>try\<close> for one entry.\<close>

definition shutdown_server :: "state \<Rightarrow> server \<Rightarrow> state \<times> (exn + unit)" where
  "shutdown_server s server =
     (let p = process server
      in if has_stdin (procs s p)
         then
           (let s1 = log_action p CloseStdin s
            in case close_raises (behaviour (procs s1 p)) of
                 Some m \<Rightarrow> (s1, Inl (OSError m))
               | None \<Rightarrow> graceful_wait s1 p)
         else graceful_wait s p)"

definition disconnect_report :: "string \<Rightarrow> exn \<Rightarrow> string" where
  "disconnect_report name e =
     ''Error disconnecting from server '' @ sq name @ '': '' @ str_exn e"

text \<open>The \<^verbatim>\<open>for\<close> loop: the handler of the outer \<^verbatim>\<open>try\<close> prints and the loop goes on.\<close>

fun disconnect_loop :: "state \<Rightarrow> (string \<times> server) list \<Rightarrow> state" where
  "disconnect_loop s [] = s"
| "disconnect_loop s ((name, server) # rest) =
     (case shutdown_server s server of
        (s1, Inl e) \<Rightarrow> disconnect_loop (print (disconnect_report name e) s1) rest
      | (s1, Inr u) \<Rightarrow> disconnect_loop s1 rest)"

definition disconnect_all :: "state \<Rightarrow> state" where
  "disconnect_all s = (disconnect_loop s (servers s))\<lparr>servers := []\<rparr>"

subsection \<open>\<^verbatim>\<open>get_available_tools\<close> and \<^verbatim>\<open>is_connected\<close>\<close>

definition get_available_tools :: "state \<Rightarrow> string \<Rightarrow> exn + json" where
  "get_available_tools s server_name =
     (case map_of (servers s) server_name of
        None \<Rightarrow> Inl (Exception (''Server '' @ sq server_name @ '' not found''))
      | Some server \<Rightarrow> Inr (available_tools server))"

definition is_connected :: "state \<Rightarrow> string \<Rightarrow> bool" where
  "is_connected s server_name =
     (case map_of (servers s) server_name of
        None \<Rightarrow> False
      | Some server \<Rightarrow> returncode (procs s (process server)) = None)"

subsection \<open>Sequences of calls on one client\<close>

text \<open>
  A call of a public method together with what the surroundings do during it, or a child
  process exiting on its own between two calls.
\<close>

datatype op =
    Connect spawn_outcome string string config
  | CallTool string string json
  | DisconnectAll
  | ProcessExits pid int

fun step :: "state \<Rightarrow> op \<Rightarrow> state" where
  "step s (Connect spawn name cmd cfg) = fst (connect_server spawn s name cmd cfg)"
| "step s (CallTool server_name tool_name arguments) =
     fst (call_tool s server_name tool_name arguments)"
| "step s DisconnectAll = disconnect_all s"
| "step s (ProcessExits p code) =
     (if returncode (procs s p) = None then set_returncode p code s else s)"

definition run :: "state \<Rightarrow> op list \<Rightarrow> state" where
  "run s ops = foldl step s ops"

text \<open>The requests written, in order, to all processes and to one process.\<close>

fun written :: "(pid \<times> action) list \<Rightarrow> (pid \<times> json) list" where
  "written [] = []"
| "written ((p, Write r) # t) = (p, r) # written t"
| "written (_ # t) = written t"


text \<open>The \<^verbatim>\<open>id\<close> member of a request.\<close>

definition id_of :: "json \<Rightarrow> int option" where
  "id_of r = (case py_getitem r ''id'' of Inr (JInt i) \<Rightarrow> Some i | _ \<Rightarrow> None)"


subsection \<open>Auxiliary notions for the statements about shutdown\<close>

text \<open>The calls made on a process once its graceful wait has timed out.\<close>

definition forced_actions :: "proc \<Rightarrow> action list" where
  "forced_actions pr =
     (if terminate_raises (behaviour pr) = None then [Terminate, Wait] else [Terminate])"

text \<open>The handler of the outer \<^verbatim>\<open>try\<close>, applied to the outcome of one shutdown.\<close>

definition handle_shutdown :: "string \<Rightarrow> state \<times> (exn + unit) \<Rightarrow> state" where
  "handle_shutdown name r =
     (case r of (s1, Inl e) \<Rightarrow> print (disconnect_report name e) s1 | (s1, Inr u) \<Rightarrow> s1)"

subsection \<open>Example peers and states\<close>

text \<open>
  A peer that gives the listed answers, lets its input be closed and exits with code 0
  as soon as it is waited for.
\<close>

definition peer :: "io_outcome list \<Rightarrow> script" where
  "peer rs = \<lparr>replies = rs, close_raises = None, on_wait_for = Exits 0,
             terminate_raises = None, on_wait = Inr 0\<rparr>"

definition started :: "script \<Rightarrow> proc" where
  "started sc = \<lparr>has_stdin = True, returncode = None, behaviour = sc,
                 proc_command = ''npx'', proc_args = [], proc_env = []\<rparr>"

definition entry :: "pid \<Rightarrow> server" where
  "entry p = \<lparr>process = p, command = ''npx'', args = [], available_tools = JList []\<rparr>"

text \<open>The state right after \<^verbatim>\<open>MCPClient()\<close>, nothing logged or printed yet.\<close>

definition fresh :: state where
  "fresh = \<lparr>servers = [], request_id = 0, procs = (\<lambda>p. started (peer [])), next_pid = 0,
            trace = [], stdout = [], environ = []\<rparr>"

text \<open>
  Two registered servers: closing the input of the first raises, the second does not exit
  within the timeout.
\<close>

definition two_servers :: state where
  "two_servers =
     fresh\<lparr>servers := [(''cal'', entry 0), (''mail'', entry 1)],
           request_id := 4,
           procs := (\<lambda>p. if p = 0
                          then started ((peer [])\<lparr>close_raises := Some ''Broken pipe''\<rparr>)
                          else started ((peer [])\<lparr>on_wait_for := TimesOut\<rparr>)),
           next_pid := 2\<rparr>"

text \<open>A \<^verbatim>\<open>config\<close> dictionary with neither key.\<close>

definition no_config :: config where
  "no_config = \<lparr>cfg_args = None, cfg_env = None\<rparr>"

text \<open>
  Connecting, from the fresh state, to a peer whose answer to \<^verbatim>\<open>initialize\<close> is not JSON
  and which keeps running.
\<close>

definition failed_connect :: "state \<times> (exn + unit)" where
  "failed_connect =
     connect_server (Spawned (peer [BadJson ''Expecting value''])) fresh ''cal'' ''npx'' no_config"

text \<open>
  The client stores no connection status. This is the status of the specification's data
  model at the moment \<^verbatim>\<open>connect_server\<close> returns: \<open>Ready\<close> after a successful handshake,
  \<open>Failed\<close> after a handshake error.
\<close>

datatype status = Disconnected | Connecting | Initializing | Ready | Disconnecting | Failed

definition spec_status_after_connect :: "exn + unit \<Rightarrow> status" where
  "spec_status_after_connect r = (case r of Inl e \<Rightarrow> Failed | Inr u \<Rightarrow> Ready)"

text \<open>
  The peer of the specification's scenarios: its answers to \<^verbatim>\<open>initialize\<close>, to
  \<^verbatim>\<open>tools/list\<close> and to two calls.
\<close>

definition cal_tools :: json where
  "cal_tools =
     JList [JObj [(''name'', JStr ''get_events'')], JObj [(''name'', JStr ''get_contacts'')]]"

definition cal_peer :: script where
  "cal_peer =
     peer [Reply (JObj [(''jsonrpc'', JStr ''2.0''), (''id'', JInt 1), (''result'', JObj [])]),
           Reply (JObj [(''jsonrpc'', JStr ''2.0''), (''id'', JInt 2),
                        (''result'', JObj [(''tools'', cal_tools)])]),
           Reply (JObj [(''jsonrpc'', JStr ''2.0''), (''id'', JInt 3),
                        (''result'', JObj [(''contacts'', JList [])])]),
           Reply (JObj [(''jsonrpc'', JStr ''2.0''), (''id'', JInt 4),
                        (''error'', JObj [(''code'', JInt (- 32601)),
                                          (''message'', JStr ''no such tool'')])])]"

text \<open>The state in which that peer has been connected as \<open>cal\<close> and has two answers left.\<close>

definition cal_ready :: state where
  "cal_ready =
     fresh\<lparr>servers := [(''cal'', (entry 0)\<lparr>available_tools := cal_tools\<rparr>)],
           request_id := 2,
           procs :=
             (procs fresh)(0 := started (cal_peer\<lparr>replies := drop 2 (replies cal_peer)\<rparr>)),
           next_pid := 1,
           trace := [(0, Write (init_request 1)), (0, Write (tools_request 2))]\<rparr>"


text \<open>A peer whose answer to \<^verbatim>\<open>tools/list\<close> has \<^verbatim>\<open>null\<close> for its result.\<close>

definition null_result_peer :: script where
  "null_result_peer =
     peer [Reply (JObj [(''jsonrpc'', JStr ''2.0''), (''id'', JInt 1), (''result'', JObj [])]),
           Reply (JObj [(''jsonrpc'', JStr ''2.0''), (''id'', JInt 2), (''result'', JNull)])]"

text \<open>A registered server with one tool, whose name is \<^verbatim>\<open>a\b\<close>: three characters.\<close>

definition odd_name :: string where
  "odd_name = [CHR ''a'', backslash, CHR ''b'']"

definition odd_ready :: state where
  "odd_ready =
     fresh\<lparr>servers :=
             [(''cal'', (entry 0)\<lparr>available_tools := JList [JObj [(''name'', JStr odd_name)]]\<rparr>)],
           request_id := 2, next_pid := 1\<rparr>"

subsection \<open>Auxiliary notions for the statements about tools\<close>

text \<open>
  The handshake fails: one of its two requests is not answered by a decodable line, or
  reading the tools out of the second answer raises.
\<close>

definition handshake_fails :: "script \<Rightarrow> bool" where
  "handshake_fails sc =
     (case replies sc of
        Reply response # Reply tools_response # rest \<Rightarrow> isl (discovered_tools tools_response)
      | _ \<Rightarrow> True)"

text \<open>The member \<^verbatim>\<open>tools\<close> of the member \<^verbatim>\<open>result\<close> of a response, when both exist.\<close>

fun result_tools :: "json \<Rightarrow> json option" where
  "result_tools (JObj kvs) =
     (case map_of kvs ''result'' of Some (JObj rkvs) \<Rightarrow> map_of rkvs ''tools'' | _ \<Rightarrow> None)"
| "result_tools v = None"

text \<open>
  A text that \<^verbatim>\<open>repr\<close> prints as it is between the quotes: no backslash, no
  non-printable character, and not both kinds of quote.
\<close>

definition plain :: "string \<Rightarrow> bool" where
  "plain n \<longleftrightarrow>
     backslash \<notin> set n \<and> (squote \<notin> set n \<or> dquote \<notin> set n) \<and>
     (\<forall>c \<in> set n. \<not> nonprintable c)"

subsection \<open>Auxiliary notions for the statements about request ids\<close>

text \<open>The ids of the requests written so far, in the order of writing.\<close>

definition issued :: "state \<Rightarrow> int option list" where
  "issued s = map (\<lambda>e. id_of (snd e)) (written (trace s))"

text \<open>The ids issued so far are exactly \<open>1, \<dots>, request_id\<close>, in this order.\<close>

definition counted :: "state \<Rightarrow> bool" where
  "counted s \<longleftrightarrow> 0 \<le> request_id s \<and> issued s = map Some [1..request_id s]"

text \<open>Every registered process has its input pipe.\<close>

definition piped :: "state \<Rightarrow> bool" where
  "piped s \<longleftrightarrow>
     (\<forall>(name, server) \<in> set (servers s). has_stdin (procs s (process server)))"


section \<open>Properties\<close>

subsection \<open>Frame lemmas\<close>

lemma log_action_simps [simp]:
  "trace (log_action p a s) = trace s @ [(p, a)]"
  "servers (log_action p a s) = servers s"
  "request_id (log_action p a s) = request_id s"
  "procs (log_action p a s) = procs s"
  "stdout (log_action p a s) = stdout s"
  "next_pid (log_action p a s) = next_pid s"
  by (simp_all add: log_action_def)

lemma set_returncode_simps [simp]:
  "trace (set_returncode p c s) = trace s"
  "servers (set_returncode p c s) = servers s"
  "request_id (set_returncode p c s) = request_id s"
  "stdout (set_returncode p c s) = stdout s"
  "next_pid (set_returncode p c s) = next_pid s"
  "procs (set_returncode p c s) = (procs s)(p := (procs s p)\<lparr>returncode := Some c\<rparr>)"
  by (simp_all add: set_returncode_def)

lemma print_simps [simp]:
  "trace (print l s) = trace s"
  "servers (print l s) = servers s"
  "request_id (print l s) = request_id s"
  "procs (print l s) = procs s"
  "stdout (print l s) = stdout s @ [l]"
  "next_pid (print l s) = next_pid s"
  by (simp_all add: print_def)

lemma next_request_id_simps [simp]:
  "fst (next_request_id s) = s\<lparr>request_id := request_id s + 1\<rparr>"
  "snd (next_request_id s) = request_id s + 1"
  by (simp_all add: next_request_id_def)

lemma send_request_frame [simp]:
  "servers (fst (send_request s n r)) = servers s"
  "request_id (fst (send_request s n r)) = request_id s"
  "next_pid (fst (send_request s n r)) = next_pid s"
  "stdout (fst (send_request s n r)) = stdout s"
  by (simp_all add: send_request_def Let_def split: option.splits list.splits io_outcome.splits)

lemma send_request_has_stdin [simp]:
  "has_stdin (procs (fst (send_request s n r)) p) = has_stdin (procs s p)"
  by (simp add: send_request_def log_action_def Let_def
        split: option.splits list.splits io_outcome.splits)

lemma send_request_trace:
  "trace (fst (send_request s n r)) =
     (case map_of (servers s) n of None \<Rightarrow> trace s
      | Some server \<Rightarrow> trace s @ [(process server, Write r)])"
  by (simp add: send_request_def Let_def split: option.splits list.splits io_outcome.splits)

lemma send_request_absent:
  "map_of (servers s) n = None \<Longrightarrow>
   send_request s n r = (s, Inl (Exception (''Server '' @ sq n @ '' not found'')))"
  by (simp add: send_request_def)

lemma send_request_reply:
  assumes "map_of (servers s) n = Some server"
    and "replies (behaviour (procs s (process server))) = Reply response # rest"
  shows "send_request s n r =
     (s\<lparr>trace := trace s @ [(process server, Write r)],
        procs := (procs s)(process server :=
                   (procs s (process server))\<lparr>behaviour :=
                      (behaviour (procs s (process server)))\<lparr>replies := rest\<rparr>\<rparr>)\<rparr>,
      Inr response)"
  using assms by (simp add: send_request_def log_action_def Let_def)

subsection \<open>Connecting: what the handshake does to the registry\<close>

lemma connect_server_spawn_raises:
  "connect_server (SpawnRaises m) s name cmd cfg = (s, Inl (connect_error name (OSError m)))"
  by (simp add: connect_server_def Let_def)

lemma initialize_server_failure_servers:
  assumes "initialize_server s name = (s', Inl e)"
  shows "servers s' = servers s"
proof (cases "map_of (servers s) name")
  case None
  with assms show ?thesis by (simp add: initialize_server_def)
next
  case (Some server)
  let ?s1 = "s\<lparr>request_id := request_id s + 1\<rparr>"
  obtain s2 r1 where r1: "send_request ?s1 name (init_request (request_id s + 1)) = (s2, r1)"
    by (cases "send_request ?s1 name (init_request (request_id s + 1))")
  have s2: "servers s2 = servers s"
    using send_request_frame(1) [of ?s1 name "init_request (request_id s + 1)"]
    by (simp add: r1)
  show ?thesis
  proof (cases r1)
    case (Inl e1)
    with assms Some r1 s2 show ?thesis
      by (simp add: initialize_server_def next_request_id_def)
  next
    case (Inr response)
    let ?s3 = "s2\<lparr>request_id := request_id s2 + 1\<rparr>"
    obtain s4 r2 where r2: "send_request ?s3 name (tools_request (request_id s2 + 1)) = (s4, r2)"
      by (cases "send_request ?s3 name (tools_request (request_id s2 + 1))")
    have s4: "servers s4 = servers s"
      using send_request_frame(1) [of ?s3 name "tools_request (request_id s2 + 1)"] s2
      by (simp add: r2)
    from assms Some r1 Inr r2 s4 show ?thesis
      by (simp add: initialize_server_def next_request_id_def
            split: sum.splits option.splits)
  qed
qed

lemma initialize_server_present_error:
  assumes "map_of (servers s) name = Some server" and "initialize_server s name = (s', Inl e)"
  shows "\<exists>e1. e = initialize_error name e1"
  using assms
  by (auto simp: initialize_server_def next_request_id_def
        split: prod.splits sum.splits option.splits)

subsection \<open>Connecting: tool discovery\<close>

lemma cal_connected:
  "connect_server (Spawned cal_peer) fresh ''cal'' ''npx'' no_config = (cal_ready, Inr ())"
  by (simp add: connect_server_def initialize_server_def send_request_def
          next_request_id_def log_action_def fresh_def peer_def no_config_def cal_peer_def
          dict_update_def Let_def started_def entry_def cal_ready_def discovered_tools_def)

lemma py_in_obj: "py_in k (JObj kvs) = Inr (map_of kvs k \<noteq> None)"
  by (simp add: map_of_eq_None_iff)

lemma discovered_tools_object:
  assumes "\<forall>v. map_of kvs ''result'' = Some v \<longrightarrow> (\<exists>rkvs. v = JObj rkvs)"
  shows "discovered_tools (JObj kvs) = Inr (result_tools (JObj kvs))"
proof (cases "map_of kvs ''result''")
  case None
  then show ?thesis by (simp add: discovered_tools_def py_in_obj del: py_in.simps)
next
  case (Some v)
  with assms obtain rkvs where v: "v = JObj rkvs" by blast
  show ?thesis
    by (cases "map_of rkvs ''tools''")
       (simp_all add: discovered_tools_def py_in_obj Some v del: py_in.simps)
qed

lemma initialize_server_success:
  assumes srv: "map_of (servers s) name = Some server"
    and rep: "replies (behaviour (procs s (process server))) =
                Reply response # Reply tools_response # rest"
    and dt: "discovered_tools tools_response = Inr ot"
  shows "snd (initialize_server s name) = Inr () \<and>
         servers (fst (initialize_server s name)) =
           (case ot of None \<Rightarrow> servers s
            | Some tools \<Rightarrow> AList.update name (server\<lparr>available_tools := tools\<rparr>) (servers s))"
proof -
  define s1 where "s1 = s\<lparr>request_id := request_id s + 1\<rparr>"
  have srv1: "map_of (servers s1) name = Some server" using srv by (simp add: s1_def)
  have rep1: "replies (behaviour (procs s1 (process server))) =
                Reply response # Reply tools_response # rest"
    using rep by (simp add: s1_def)
  obtain s2 where sr1: "send_request s1 name (init_request (request_id s + 1)) = (s2, Inr response)"
    and servers2: "servers s2 = servers s1"
    and rep2: "replies (behaviour (procs s2 (process server))) = Reply tools_response # rest"
    using send_request_reply [OF srv1 rep1, of "init_request (request_id s + 1)"] by simp
  define s3 where "s3 = s2\<lparr>request_id := request_id s2 + 1\<rparr>"
  have srv3: "map_of (servers s3) name = Some server"
    using srv1 servers2 by (simp add: s3_def)
  have rep3: "replies (behaviour (procs s3 (process server))) = Reply tools_response # rest"
    using rep2 by (simp add: s3_def)
  obtain s4 where sr2: "send_request s3 name (tools_request (request_id s2 + 1)) = (s4, Inr tools_response)"
    and servers4: "servers s4 = servers s3"
    using send_request_reply [OF srv3 rep3, of "tools_request (request_id s2 + 1)"] by simp
  have servers4': "servers s4 = servers s"
    by (simp add: servers4 s3_def servers2 s1_def)
  have "initialize_server s name =
          (case ot of None \<Rightarrow> (s4, Inr ())
           | Some tools \<Rightarrow>
               (s4\<lparr>servers := AList.update name (server\<lparr>available_tools := tools\<rparr>) (servers s4)\<rparr>,
                Inr ()))"
    using srv sr1 sr2 dt
    by (simp add: initialize_server_def next_request_id_def s1_def [symmetric] s3_def [symmetric]
          split: option.splits)
  then show ?thesis by (simp add: servers4' split: option.splits)
qed

text \<open>
  Claim C6, as amended. Let both handshake requests be answered by decodable lines, the
  answer to \<^verbatim>\<open>tools/list\<close> being a JSON object whose member \<^verbatim>\<open>result\<close>, if it has one,
  is a JSON object. Then \<^verbatim>\<open>connect_server\<close> succeeds, and the tool list stored for the
  server is \<^verbatim>\<open>result.tools\<close> when that member exists and the empty list otherwise.
\<close>

theorem handshake_stores_tools:
  assumes "replies sc = Reply response # Reply tools_response # rest"
    and "tools_response = JObj kvs"
    and "\<forall>v. map_of kvs ''result'' = Some v \<longrightarrow> (\<exists>rkvs. v = JObj rkvs)"
  shows "snd (connect_server (Spawned sc) s name cmd cfg) = Inr () \<and>
         get_available_tools (fst (connect_server (Spawned sc) s name cmd cfg)) name =
           Inr (case result_tools tools_response of None \<Rightarrow> JList [] | Some tools \<Rightarrow> tools)"
proof -
  define srv where "srv = \<lparr>process = next_pid s, command = cmd,
      args = (case cfg_args cfg of None \<Rightarrow> [] | Some a \<Rightarrow> a), available_tools = JList []\<rparr>"
  define s2 where "s2 = s\<lparr>procs := (procs s)(next_pid s :=
        \<lparr>has_stdin = True, returncode = None, behaviour = sc, proc_command = cmd,
         proc_args = (case cfg_args cfg of None \<Rightarrow> [] | Some a \<Rightarrow> a),
         proc_env = dict_update (environ s) (case cfg_env cfg of None \<Rightarrow> [] | Some e \<Rightarrow> e)\<rparr>),
      next_pid := next_pid s + 1,
      servers := AList.update name srv (servers s)\<rparr>"
  have conn: "connect_server (Spawned sc) s name cmd cfg =
      (case initialize_server s2 name of
         (s3, Inl e) \<Rightarrow> (s3, Inl (connect_error name e)) | (s3, Inr u) \<Rightarrow> (s3, Inr ()))"
    by (simp add: connect_server_def Let_def s2_def srv_def)
  have present: "map_of (servers s2) name = Some srv" by (simp add: s2_def update_conv')
  have rep: "replies (behaviour (procs s2 (process srv))) =
      Reply response # Reply tools_response # rest"
    using assms(1) by (simp add: s2_def srv_def)
  have dt: "discovered_tools tools_response = Inr (result_tools tools_response)"
    using assms(2,3) discovered_tools_object by simp
  note init = initialize_server_success [OF present rep dt]
  obtain s3 where s3: "initialize_server s2 name = (s3, Inr ())"
    using init by (cases "initialize_server s2 name") auto
  have "map_of (servers s3) name =
      Some (case result_tools tools_response of None \<Rightarrow> srv
            | Some tools \<Rightarrow> srv\<lparr>available_tools := tools\<rparr>)"
    using init present by (simp add: s3 update_conv' split: option.splits)
  then show ?thesis
    by (simp add: conn s3 get_available_tools_def srv_def split: option.splits)
qed

theorem handshake_stores_tools_witness:
  "snd (connect_server (Spawned cal_peer) fresh ''cal'' ''npx'' no_config) = Inr () \<and>
   get_available_tools (fst (connect_server (Spawned cal_peer) fresh ''cal'' ''npx'' no_config)) ''cal'' =
     Inr cal_tools"
proof -
  have r: "replies cal_peer =
      Reply (JObj [(''jsonrpc'', JStr ''2.0''), (''id'', JInt 1), (''result'', JObj [])]) #
      Reply (JObj [(''jsonrpc'', JStr ''2.0''), (''id'', JInt 2),
                   (''result'', JObj [(''tools'', cal_tools)])]) #
      drop 2 (replies cal_peer)"
    by (simp add: cal_peer_def peer_def)
  have o: "\<forall>v. map_of [(''jsonrpc'', JStr ''2.0''), (''id'', JInt 2),
                   (''result'', JObj [(''tools'', cal_tools)])] ''result'' = Some v \<longrightarrow>
             (\<exists>rkvs. v = JObj rkvs)"
    by simp
  from handshake_stores_tools [OF r refl o, of fresh "''cal''" "''npx''" no_config]
  show ?thesis by simp
qed

text \<open>
  Claim C6 as stated fails: the answer \<^verbatim>\<open>{"jsonrpc":"2.0","id":2,"result":null}\<close> is
  received and decoded, it has no \<^verbatim>\<open>result.tools\<close>, and the handshake fails with the
  interpreter's \<^verbatim>\<open>TypeError\<close> instead of succeeding with an empty tool list.
\<close>

theorem null_result_fails_handshake:
  "result_tools (JObj [(''jsonrpc'', JStr ''2.0''), (''id'', JInt 2), (''result'', JNull)]) = None \<and>
   snd (connect_server (Spawned null_result_peer) fresh ''cal'' ''npx'' no_config) =
     Inl (connect_error ''cal'' (initialize_error ''cal''
       (TypeError (''argument of type '' @ sq ''NoneType'' @ '' is not iterable''))))"
  by (simp add: connect_server_def initialize_server_def send_request_def
          next_request_id_def log_action_def fresh_def peer_def no_config_def null_result_peer_def
          dict_update_def Let_def started_def discovered_tools_def)

subsection \<open>Connecting: what a failure leaves behind\<close>

lemma send_request_no_reply:
  assumes "map_of (servers s) n = Some server"
    and "\<forall>response rest. replies (behaviour (procs s (process server))) \<noteq> Reply response # rest"
  shows "isl (snd (send_request s n r))"
  using assms
  by (simp add: send_request_def log_action_def Let_def split: list.splits io_outcome.splits)

lemma initialize_server_fails_iff:
  assumes srv: "map_of (servers s) name = Some server"
  shows "isl (snd (initialize_server s name)) \<longleftrightarrow>
         handshake_fails (behaviour (procs s (process server)))"
proof (cases "\<exists>response tools_response rest.
    replies (behaviour (procs s (process server))) = Reply response # Reply tools_response # rest")
  case True
  then obtain response tools_response rest
    where rep: "replies (behaviour (procs s (process server))) =
      Reply response # Reply tools_response # rest"
    by blast
  show ?thesis
  proof (cases "discovered_tools tools_response")
    case (Inr ot)
    from initialize_server_success [OF srv rep Inr]
    show ?thesis by (simp add: handshake_fails_def rep Inr)
  next
    case (Inl e)
    define s1 where "s1 = s\<lparr>request_id := request_id s + 1\<rparr>"
    have srv1: "map_of (servers s1) name = Some server" using srv by (simp add: s1_def)
    have rep1: "replies (behaviour (procs s1 (process server))) =
                Reply response # Reply tools_response # rest"
      using rep by (simp add: s1_def)
    obtain s2 where sr1: "send_request s1 name (init_request (request_id s + 1)) = (s2, Inr response)"
      and servers2: "servers s2 = servers s1"
      and rep2: "replies (behaviour (procs s2 (process server))) = Reply tools_response # rest"
      using send_request_reply [OF srv1 rep1, of "init_request (request_id s + 1)"] by simp
    define s3 where "s3 = s2\<lparr>request_id := request_id s2 + 1\<rparr>"
    have srv3: "map_of (servers s3) name = Some server"
      using srv1 servers2 by (simp add: s3_def)
    have rep3: "replies (behaviour (procs s3 (process server))) = Reply tools_response # rest"
      using rep2 by (simp add: s3_def)
    obtain s4 where sr2: "send_request s3 name (tools_request (request_id s2 + 1)) = (s4, Inr tools_response)"
      using send_request_reply [OF srv3 rep3, of "tools_request (request_id s2 + 1)"] by simp
    have "isl (snd (initialize_server s name))"
      using srv sr1 sr2 Inl
      by (simp add: initialize_server_def next_request_id_def s1_def [symmetric] s3_def [symmetric])
    then show ?thesis by (simp add: handshake_fails_def rep Inl)
  qed
next
  case False
  then have hf: "handshake_fails (behaviour (procs s (process server)))"
    by (auto simp: handshake_fails_def split: list.splits io_outcome.splits)
  define s1 where "s1 = s\<lparr>request_id := request_id s + 1\<rparr>"
  have srv1: "map_of (servers s1) name = Some server" using srv by (simp add: s1_def)
  obtain s2 r1 where sr1: "send_request s1 name (init_request (request_id s + 1)) = (s2, r1)"
    by (cases "send_request s1 name (init_request (request_id s + 1))")
  have "isl (snd (initialize_server s name))"
  proof (cases r1)
    case (Inl e)
    then show ?thesis using srv sr1
      by (simp add: initialize_server_def next_request_id_def s1_def [symmetric])
  next
    case (Inr response)
    have "\<not> (\<forall>response rest. replies (behaviour (procs s1 (process server))) \<noteq> Reply response # rest)"
      using send_request_no_reply [OF srv1, of "init_request (request_id s + 1)"] sr1 Inr by auto
    then obtain response' rest where rep1:
      "replies (behaviour (procs s1 (process server))) = Reply response' # rest"
      by blast
    from send_request_reply [OF srv1 rep1, of "init_request (request_id s + 1)"] sr1
    have servers2: "servers s2 = servers s1"
      and rep2: "replies (behaviour (procs s2 (process server))) = rest"
      by auto
    define s3 where "s3 = s2\<lparr>request_id := request_id s2 + 1\<rparr>"
    have srv3: "map_of (servers s3) name = Some server"
      using srv1 servers2 by (simp add: s3_def)
    have "\<forall>tr rest'. replies (behaviour (procs s3 (process server))) \<noteq> Reply tr # rest'"
      using False rep1 rep2 by (auto simp: s3_def s1_def)
    from send_request_no_reply [OF srv3 this, of "tools_request (request_id s2 + 1)"]
    obtain s4 e where "send_request s3 name (tools_request (request_id s2 + 1)) = (s4, Inl e)"
      by (cases "send_request s3 name (tools_request (request_id s2 + 1))") (auto simp: isl_def)
    then show ?thesis using srv sr1 Inr
      by (simp add: initialize_server_def next_request_id_def s1_def [symmetric] s3_def [symmetric])
  qed
  with hf show ?thesis by simp
qed

lemma connect_server_fails_iff:
  "isl (snd (connect_server (Spawned sc) s name cmd cfg)) \<longleftrightarrow> handshake_fails sc"
proof -
  define srv where "srv = \<lparr>process = next_pid s, command = cmd,
      args = (case cfg_args cfg of None \<Rightarrow> [] | Some a \<Rightarrow> a), available_tools = JList []\<rparr>"
  define s2 where "s2 = s\<lparr>procs := (procs s)(next_pid s :=
        \<lparr>has_stdin = True, returncode = None, behaviour = sc, proc_command = cmd,
         proc_args = (case cfg_args cfg of None \<Rightarrow> [] | Some a \<Rightarrow> a),
         proc_env = dict_update (environ s) (case cfg_env cfg of None \<Rightarrow> [] | Some e \<Rightarrow> e)\<rparr>),
      next_pid := next_pid s + 1,
      servers := AList.update name srv (servers s)\<rparr>"
  have conn: "connect_server (Spawned sc) s name cmd cfg =
      (case initialize_server s2 name of
         (s3, Inl e) \<Rightarrow> (s3, Inl (connect_error name e)) | (s3, Inr u) \<Rightarrow> (s3, Inr ()))"
    by (simp add: connect_server_def Let_def s2_def srv_def)
  have present: "map_of (servers s2) name = Some srv" by (simp add: s2_def update_conv')
  have "behaviour (procs s2 (process srv)) = sc" by (simp add: s2_def srv_def)
  with initialize_server_fails_iff [OF present]
  have "isl (snd (initialize_server s2 name)) \<longleftrightarrow> handshake_fails sc" by simp
  then show ?thesis
    by (cases "initialize_server s2 name") (auto simp: conn split: sum.splits)
qed

lemma connect_server_failure:
  assumes "connect_server spawn s name cmd cfg = (s', Inl e)"
  shows "(\<exists>e0. e = connect_error name e0) \<and>
         (case spawn of
            SpawnRaises m \<Rightarrow> s' = s
          | Spawned sc \<Rightarrow>
              (\<exists>e1. e = connect_error name (initialize_error name e1)) \<and>
              servers s' =
                AList.update name
                  \<lparr>process = next_pid s, command = cmd,
                   args = (case cfg_args cfg of None \<Rightarrow> [] | Some a \<Rightarrow> a),
                   available_tools = JList []\<rparr>
                  (servers s))"
proof (cases spawn)
  case (SpawnRaises m)
  with assms show ?thesis by (auto simp: connect_server_def Let_def)
next
  case (Spawned sc)
  let ?srv = "\<lparr>process = next_pid s, command = cmd,
                args = (case cfg_args cfg of None \<Rightarrow> [] | Some a \<Rightarrow> a),
                available_tools = JList []\<rparr>"
  let ?s2 = "s\<lparr>procs := (procs s)(next_pid s := \<lparr>has_stdin = True, returncode = None,
                                                   behaviour = sc, proc_command = cmd,
                                                   proc_args = (case cfg_args cfg of None \<Rightarrow> [] | Some a \<Rightarrow> a),
                                                   proc_env = dict_update (environ s) (case cfg_env cfg of None \<Rightarrow> [] | Some e \<Rightarrow> e)\<rparr>),
                 next_pid := next_pid s + 1,
                 servers := AList.update name ?srv (servers s)\<rparr>"
  obtain s3 r where r: "initialize_server ?s2 name = (s3, r)"
    by (cases "initialize_server ?s2 name")
  from assms Spawned r obtain e1 where e1: "r = Inl e1" "e = connect_error name e1" "s' = s3"
    by (auto simp: connect_server_def Let_def split: sum.splits)
  have present: "map_of (servers ?s2) name = Some ?srv" by (simp add: update_conv')
  from initialize_server_present_error [OF present] r e1
  obtain e2 where "e1 = initialize_error name e2" by blast
  moreover have "servers s3 = servers ?s2"
    using initialize_server_failure_servers r e1 by blast
  ultimately show ?thesis using Spawned e1 by auto
qed

text \<open>
  Claim C1, as amended. If the process cannot be started, \<^verbatim>\<open>connect_server\<close> raises the
  wrapped error and nothing has changed. If it starts, \<^verbatim>\<open>connect_server\<close> fails exactly
  when the handshake fails; the error that reaches the caller is then the handshake's,
  wrapped in the "Failed to initialize" and "Failed to connect" messages, and the registry
  is not left as it was: the entry stored before the handshake stays under the name (in
  place of an earlier entry of that name, if any), with the new process and an empty tool
  list.
\<close>

theorem connect_failure_leaves_entry:
  assumes "connect_server spawn s name cmd cfg = (s', r)"
  shows "case spawn of
           SpawnRaises m \<Rightarrow> s' = s \<and> r = Inl (connect_error name (OSError m))
         | Spawned sc \<Rightarrow>
             (if handshake_fails sc
              then (\<exists>e1. r = Inl (connect_error name (initialize_error name e1))) \<and>
                   servers s' =
                     AList.update name
                       \<lparr>process = next_pid s, command = cmd,
                        args = (case cfg_args cfg of None \<Rightarrow> [] | Some a \<Rightarrow> a),
                        available_tools = JList []\<rparr>
                       (servers s)
              else r = Inr ())"
proof (cases spawn)
  case (SpawnRaises m)
  with assms show ?thesis by (simp add: connect_server_spawn_raises)
next
  case (Spawned sc)
  have iff: "isl r \<longleftrightarrow> handshake_fails sc"
    using connect_server_fails_iff [of sc s name cmd cfg] assms Spawned by simp
  show ?thesis
  proof (cases "handshake_fails sc")
    case True
    with iff obtain e where e: "r = Inl e" by (cases r) simp_all
    from connect_server_failure [OF assms [unfolded e]] Spawned True e
    show ?thesis by simp
  next
    case False
    with iff have "r = Inr ()" by (cases r) simp_all
    with Spawned False show ?thesis by simp
  qed
qed

theorem connect_failure_leaves_entry_witness:
  "handshake_fails (peer [BadJson ''Expecting value'']) \<and>
   (\<exists>e1. snd failed_connect = Inl (connect_error ''cal'' (initialize_error ''cal'' e1))) \<and>
   servers (fst failed_connect) = [(''cal'', entry 0)]"
proof -
  have r: "connect_server (Spawned (peer [BadJson ''Expecting value''])) fresh ''cal'' ''npx'' no_config =
     (fst failed_connect, snd failed_connect)"
    by (simp add: failed_connect_def)
  have f: "handshake_fails (peer [BadJson ''Expecting value''])"
    by (simp add: handshake_fails_def peer_def)
  from connect_failure_leaves_entry [OF r] f
  show ?thesis by (simp add: fresh_def no_config_def entry_def)
qed

text \<open>
  Claim C1 as stated fails: the name was absent before the call, the handshake fails, and
  the name is registered afterwards.
\<close>

theorem failed_handshake_stays_registered:
  "isl (snd failed_connect) \<and> map_of (servers fresh) ''cal'' = None \<and>
   map_of (servers (fst failed_connect)) ''cal'' = Some (entry 0)"
  by (simp add: failed_connect_def connect_server_def initialize_server_def send_request_def
          next_request_id_def log_action_def fresh_def peer_def no_config_def
          connect_error_def initialize_error_def dict_update_def Let_def started_def entry_def)

subsection \<open>\<^verbatim>\<open>is_connected\<close>\<close>

text \<open>
  Claim C8, as amended. \<^verbatim>\<open>is_connected\<close> is false for a name that is not registered, and
  for a registered name it is true exactly when the return code of the entry's process is
  still unset. No status is consulted: the client has none.
\<close>

theorem is_connected_iff:
  "is_connected s server_name \<longleftrightarrow>
     (\<exists>server. map_of (servers s) server_name = Some server \<and>
        returncode (procs s (process server)) = None)"
  by (simp add: is_connected_def split: option.splits)

text \<open>
  Claim C8 as stated fails: after a handshake that failed, so that the connection never
  became Ready, the server is reported connected as long as its process runs.
\<close>

theorem is_connected_after_failed_handshake:
  "is_connected (fst failed_connect) ''cal'' \<and>
   spec_status_after_connect (snd failed_connect) \<noteq> Ready"
  by (simp add: failed_connect_def connect_server_def initialize_server_def send_request_def
          next_request_id_def log_action_def fresh_def peer_def no_config_def
          connect_error_def initialize_error_def dict_update_def Let_def started_def
          is_connected_def spec_status_after_connect_def)

subsection \<open>Calling a tool: failures before any request\<close>

lemma cal_names:
  "available_tool_names ((entry 0)\<lparr>available_tools := cal_tools\<rparr>) =
     Inr [JStr ''get_events'', JStr ''get_contacts'']"
  by (simp add: available_tool_names_def cal_tools_def entry_def)

text \<open>
  Claim C10. A \<^verbatim>\<open>call_tool\<close> that fails because the server name is unknown, or because the
  tool name is not among the available names, returns the state it was given: nothing is
  written to any process and the request-id counter keeps its value. By contrast, once the
  tool name is found, exactly one id is taken and one request is written.
\<close>

theorem call_tool_early_failure:
  "(map_of (servers s) server_name = None \<longrightarrow>
      call_tool s server_name tool_name arguments =
        (s, Inl (Exception (''Server '' @ sq server_name @ '' not connected'')))) \<and>
   (\<forall>server names.
      map_of (servers s) server_name = Some server \<longrightarrow>
      available_tool_names server = Inr names \<longrightarrow>
      (if JStr tool_name \<notin> set names
       then call_tool s server_name tool_name arguments =
              (s, Inl (tool_unavailable tool_name server_name names))
       else request_id (fst (call_tool s server_name tool_name arguments)) = request_id s + 1 \<and>
            trace (fst (call_tool s server_name tool_name arguments)) =
              trace s @ [(process server,
                          Write (tool_request (request_id s + 1) tool_name arguments))]))"
proof (intro conjI allI impI)
  assume "map_of (servers s) server_name = None"
  then show "call_tool s server_name tool_name arguments =
        (s, Inl (Exception (''Server '' @ sq server_name @ '' not connected'')))"
    by (simp add: call_tool_def)
next
  fix server names
  assume srv: "map_of (servers s) server_name = Some server"
    and names: "available_tool_names server = Inr names"
  let ?s1 = "s\<lparr>request_id := request_id s + 1\<rparr>"
  let ?rq = "tool_request (request_id s + 1) tool_name arguments"
  have tr: "trace (fst (send_request ?s1 server_name ?rq)) = trace s @ [(process server, Write ?rq)]"
    using srv by (simp add: send_request_trace)
  have rid: "request_id (fst (send_request ?s1 server_name ?rq)) = request_id s + 1"
    by simp
  show "if JStr tool_name \<notin> set names
       then call_tool s server_name tool_name arguments =
              (s, Inl (tool_unavailable tool_name server_name names))
       else request_id (fst (call_tool s server_name tool_name arguments)) = request_id s + 1 \<and>
            trace (fst (call_tool s server_name tool_name arguments)) =
              trace s @ [(process server,
                          Write (tool_request (request_id s + 1) tool_name arguments))]"
    using srv names tr rid
    by (cases "send_request ?s1 server_name ?rq")
       (auto simp: call_tool_def next_request_id_def split: sum.splits)
qed

theorem call_tool_early_failure_witness:
  "call_tool cal_ready ''mail'' ''get_events'' (JObj []) =
     (cal_ready, Inl (Exception (''Server '' @ sq ''mail'' @ '' not connected''))) \<and>
   call_tool cal_ready ''cal'' ''Get_Events'' (JObj []) =
     (cal_ready, Inl (tool_unavailable ''Get_Events'' ''cal'' [JStr ''get_events'', JStr ''get_contacts''])) \<and>
   request_id (fst (call_tool cal_ready ''cal'' ''get_events'' (JObj []))) = 3"
proof -
  have a: "map_of (servers cal_ready) ''mail'' = None"
    by (simp add: cal_ready_def fresh_def)
  have b: "map_of (servers cal_ready) ''cal'' = Some ((entry 0)\<lparr>available_tools := cal_tools\<rparr>)"
    by (simp add: cal_ready_def fresh_def)
  have c: "JStr ''Get_Events'' \<notin> set [JStr ''get_events'', JStr ''get_contacts'']"
    "\<not> JStr ''get_events'' \<notin> set [JStr ''get_events'', JStr ''get_contacts'']"
    by simp_all
  have d: "request_id cal_ready + 1 = 3" by (simp add: cal_ready_def fresh_def)
  note T1 = call_tool_early_failure [of cal_ready "''mail''" "''get_events''" "JObj []"]
  note T2 = call_tool_early_failure [of cal_ready "''cal''" "''Get_Events''" "JObj []"]
  note T3 = call_tool_early_failure [of cal_ready "''cal''" "''get_events''" "JObj []"]
  from T1 a have 1: "call_tool cal_ready ''mail'' ''get_events'' (JObj []) =
     (cal_ready, Inl (Exception (''Server '' @ sq ''mail'' @ '' not connected'')))"
    by blast
  from T2 b cal_names c(1) have 2: "call_tool cal_ready ''cal'' ''Get_Events'' (JObj []) =
     (cal_ready, Inl (tool_unavailable ''Get_Events'' ''cal'' [JStr ''get_events'', JStr ''get_contacts'']))"
    by (metis (full_types))
  from T3 b cal_names c(2) d have 3: "request_id (fst (call_tool cal_ready ''cal'' ''get_events'' (JObj []))) = 3"
    by (metis (full_types))
  from 1 2 3 show ?thesis by blast
qed

subsection \<open>Calling a tool: the response\<close>





subsection \<open>Calling a tool: the message for an unknown tool\<close>

lemma sublist_join_comma:
  "x \<in> set xs \<Longrightarrow> sublist x (join_comma xs)"
proof (induction xs rule: join_comma.induct)
  case 1
  then show ?case by simp
next
  case (2 y)
  then show ?case by simp
next
  case (3 y z zs)
  show ?case
  proof (cases "x = y")
    case True
    then show ?thesis by simp
  next
    case False
    with 3 have "sublist x (join_comma (z # zs))" by simp
    then have "sublist x ((y @ '', '') @ join_comma (z # zs))"
      by (metis sublist_order.order_trans sublist_append_leftI)
    then show ?thesis by simp
  qed
qed

lemma py_repr_list_map: "py_repr_list xs = map py_repr xs"
  by (induction xs) simp_all

lemma sublist_py_repr_list:
  assumes "x \<in> set xs"
  shows "sublist (py_repr x) (py_repr (JList xs))"
proof -
  have "sublist (py_repr x) (join_comma (py_repr_list xs))"
    using assms by (intro sublist_join_comma) (simp add: py_repr_list_map)
  then obtain ps ss where "join_comma (py_repr_list xs) = ps @ py_repr x @ ss"
    by (auto simp: sublist_def)
  then have "py_repr (JList xs) = (''['' @ ps) @ py_repr x @ (ss @ '']'')" by simp
  then show ?thesis unfolding sublist_def by blast
qed

lemma repr_char_plain:
  assumes "plain n" and "c \<in> set n"
  shows "repr_char (repr_quote n) c = [c]"
proof -
  from assms have np: "\<not> nonprintable c" and nb: "c \<noteq> backslash"
    by (auto simp: plain_def)
  from assms have nq: "c \<noteq> repr_quote n"
    by (auto simp: plain_def repr_quote_def)
  have "c \<noteq> CHR 0x09" "c \<noteq> CHR 0x0A" "c \<noteq> CHR 0x0D"
    using np by (auto simp: nonprintable_def)
  with np nb nq show ?thesis by (simp add: repr_char_def)
qed

lemma repr_str_plain:
  assumes "plain n"
  shows "repr_str n = repr_quote n # n @ [repr_quote n]"
proof -
  have "map (repr_char (repr_quote n)) n = map (\<lambda>c. [c]) n"
    by (rule map_cong [OF refl]) (rule repr_char_plain [OF assms])
  then have "concat (map (repr_char (repr_quote n)) n) = concat (map (\<lambda>c. [c]) n)"
    by (rule arg_cong)
  also have "\<dots> = n" by (induction n) simp_all
  finally show ?thesis by (simp add: repr_str_def)
qed

lemma sublist_repr_str_plain: "plain n \<Longrightarrow> sublist n (repr_str n)"
  by (simp add: repr_str_plain sublist_Cons_right)

text \<open>
  Claim C4, as amended. Let the server be registered and the names of its tools be
  collected without error (its tool list is a list of JSON objects). For a tool name that
  is equal to none of them, \<^verbatim>\<open>call_tool\<close> fails at once, the state untouched, with the
  "Tool ... not available" exception. Its message ends with Python's rendering of the list
  of names, so it contains every known name as \<^verbatim>\<open>repr\<close> prints it, and the name itself
  when the name is plain.
\<close>

theorem unknown_tool_message:
  assumes "map_of (servers s) server_name = Some server"
    and "available_tool_names server = Inr names"
    and "JStr tool_name \<notin> set names"
  shows "\<exists>msg. call_tool s server_name tool_name arguments = (s, Inl (Exception msg)) \<and>
           prefix (''Tool '' @ sq tool_name @ '' not available on server '' @ sq server_name) msg \<and>
           suffix (''Available tools: '' @ py_repr (JList names)) msg \<and>
           (\<forall>n. JStr n \<in> set names \<longrightarrow>
              sublist (repr_str n) msg \<and> (plain n \<longrightarrow> sublist n msg))"
proof -
  define msg where "msg = ''Tool '' @ sq tool_name @ '' not available on server '' @
      sq server_name @ ''. '' @ ''Available tools: '' @ py_repr (JList names)"
  have call: "call_tool s server_name tool_name arguments = (s, Inl (Exception msg))"
    using assms by (simp add: call_tool_def tool_unavailable_def msg_def)
  have pre: "prefix (''Tool '' @ sq tool_name @ '' not available on server '' @ sq server_name) msg"
    unfolding msg_def prefix_def by simp
  have suf: "suffix (''Available tools: '' @ py_repr (JList names)) msg"
    unfolding msg_def suffix_def
    by (rule exI [of _ "''Tool '' @ sq tool_name @ '' not available on server '' @
      sq server_name @ ''. ''"]) simp
  have names: "sublist (repr_str n) msg \<and> (plain n \<longrightarrow> sublist n msg)" if "JStr n \<in> set names" for n
  proof -
    have "sublist (py_repr (JStr n)) (py_repr (JList names))"
      using that by (rule sublist_py_repr_list)
    moreover have "sublist (py_repr (JList names)) msg"
      using suf by (meson suffix_imp_sublist sublist_order.order_trans suffix_def sublist_append_leftI)
    ultimately have 1: "sublist (repr_str n) msg"
      by (metis py_repr.simps(5) sublist_order.order_trans)
    have "sublist n msg" if "plain n"
      using sublist_repr_str_plain [OF that] 1 by (rule sublist_order.order_trans)
    with 1 show ?thesis by simp
  qed
  from call pre suf names show ?thesis by blast
qed

theorem unknown_tool_message_witness:
  "\<exists>msg. call_tool cal_ready ''cal'' ''Get_Events'' (JObj []) = (cal_ready, Inl (Exception msg)) \<and>
     sublist ''get_events'' msg \<and> sublist ''get_contacts'' msg"
proof -
  have a: "map_of (servers cal_ready) ''cal'' = Some ((entry 0)\<lparr>available_tools := cal_tools\<rparr>)"
    by (simp add: cal_ready_def fresh_def)
  have b: "JStr ''Get_Events'' \<notin> set [JStr ''get_events'', JStr ''get_contacts'']" by simp
  have p: "plain ''get_events''" "plain ''get_contacts''"
    by (simp_all add: plain_def nonprintable_def backslash_def squote_def dquote_def)
  from unknown_tool_message [OF a cal_names b, of "JObj []"] p
  show ?thesis by auto
qed

text \<open>
  Claim C4 as stated fails: the one known tool is named \<^verbatim>\<open>a\b\<close>, and the message shows
  it with the backslash doubled, so the name does not occur in the message.
\<close>

theorem escaped_tool_name_not_in_message:
  "call_tool odd_ready ''cal'' ''x'' (JObj []) =
     (odd_ready, Inl (Exception (''Tool '' @ sq ''x'' @ '' not available on server '' @ sq ''cal'' @
        ''. Available tools: ['' @ [squote, CHR ''a'', backslash, backslash, CHR ''b'', squote] @ '']''))) \<and>
   available_tool_names ((entry 0)\<lparr>available_tools := JList [JObj [(''name'', JStr odd_name)]]\<rparr>) =
     Inr [JStr odd_name] \<and>
   \<not> sublist odd_name (''Tool '' @ sq ''x'' @ '' not available on server '' @ sq ''cal'' @
        ''. Available tools: ['' @ [squote, CHR ''a'', backslash, backslash, CHR ''b'', squote] @ '']'')"
proof (intro conjI)
  show "call_tool odd_ready ''cal'' ''x'' (JObj []) =
     (odd_ready, Inl (Exception (''Tool '' @ sq ''x'' @ '' not available on server '' @ sq ''cal'' @
        ''. Available tools: ['' @ [squote, CHR ''a'', backslash, backslash, CHR ''b'', squote] @ '']'')))"
    by (simp add: call_tool_def odd_ready_def fresh_def entry_def available_tool_names_def
          odd_name_def tool_unavailable_def repr_str_def repr_quote_def repr_char_def
          squote_def dquote_def backslash_def sq_def nonprintable_def)
  show "available_tool_names ((entry 0)\<lparr>available_tools := JList [JObj [(''name'', JStr odd_name)]]\<rparr>) =
     Inr [JStr odd_name]"
    by (simp add: available_tool_names_def entry_def)
  show "\<not> sublist odd_name (''Tool '' @ sq ''x'' @ '' not available on server '' @ sq ''cal'' @
        ''. Available tools: ['' @ [squote, CHR ''a'', backslash, backslash, CHR ''b'', squote] @ '']'')"
    by (simp add: odd_name_def sq_def squote_def backslash_def sublist_code)
qed

subsection \<open>Shutting down: the calls on one process\<close>

lemma force_terminate_trace:
  "trace (fst (force_terminate s p)) = trace s @ map (Pair p) (forced_actions (procs s p))"
  by (simp add: force_terminate_def forced_actions_def Let_def split: option.splits sum.splits)

lemma graceful_wait_trace:
  "trace (fst (graceful_wait s p)) =
     trace s @ (p, WaitFor graceful_timeout) #
       (if returncode (procs s p) = None \<and> on_wait_for (behaviour (procs s p)) = TimesOut
        then map (Pair p) (forced_actions (procs s p)) else [])"
  by (simp add: graceful_wait_def Let_def force_terminate_trace split: wait_outcome.splits)

lemma shutdown_server_trace:
  "trace (fst (shutdown_server s server)) =
     trace s @
       (if has_stdin (procs s (process server)) then [(process server, CloseStdin)] else []) @
       (if has_stdin (procs s (process server)) \<and> close_raises (behaviour (procs s (process server))) \<noteq> None then []
        else (process server, WaitFor graceful_timeout) #
       (if returncode (procs s (process server)) = None \<and> on_wait_for (behaviour (procs s (process server))) = TimesOut
        then map (Pair (process server)) (forced_actions (procs s (process server))) else []))"
  by (simp add: shutdown_server_def Let_def graceful_wait_trace split: option.splits)

lemma shutdown_server_frame [simp]:
  "servers (fst (shutdown_server s server)) = servers s"
  "request_id (fst (shutdown_server s server)) = request_id s"
  by (simp_all add: shutdown_server_def graceful_wait_def force_terminate_def Let_def
        split: option.splits sum.splits wait_outcome.splits)


lemma shutdown_server_has_stdin [simp]:
  "has_stdin (procs (fst (shutdown_server s server)) p) = has_stdin (procs s p)"
  by (simp add: shutdown_server_def graceful_wait_def force_terminate_def Let_def
        split: option.splits sum.splits wait_outcome.splits)


subsection \<open>Shutting down: the loop\<close>

lemma disconnect_loop_Cons:
  "disconnect_loop s ((name, server) # rest) =
     disconnect_loop (handle_shutdown name (shutdown_server s server)) rest"
  by (simp add: handle_shutdown_def split: prod.splits sum.splits)

declare disconnect_loop.simps(2) [simp del]

lemma handle_shutdown_trace [simp]:
  "trace (handle_shutdown name r) = trace (fst r)"
  by (simp add: handle_shutdown_def split: prod.splits sum.splits)

lemma handle_shutdown_frame [simp]:
  "servers (handle_shutdown name r) = servers (fst r)"
  "request_id (handle_shutdown name r) = request_id (fst r)"
  by (simp_all add: handle_shutdown_def split: prod.splits sum.splits)

lemma disconnect_loop_frame [simp]:
  "servers (disconnect_loop s xs) = servers s"
  "request_id (disconnect_loop s xs) = request_id s"
  by (induction xs arbitrary: s; simp add: disconnect_loop_Cons split_paired_all)+

lemma handle_shutdown_has_stdin [simp]:
  "has_stdin (procs (handle_shutdown name r) p) = has_stdin (procs (fst r) p)"
  by (simp add: handle_shutdown_def split: prod.splits sum.splits)

lemma disconnect_loop_has_stdin [simp]:
  "has_stdin (procs (disconnect_loop s xs) p) = has_stdin (procs s p)"
  by (induction xs arbitrary: s) (simp_all add: disconnect_loop_Cons split_paired_all)

lemma disconnect_loop_append:
  "disconnect_loop s (xs @ ys) = disconnect_loop (disconnect_loop s xs) ys"
  by (induction xs arbitrary: s) (simp_all add: disconnect_loop_Cons split_paired_all)





lemma two_servers_first:
  "shutdown_server (disconnect_loop two_servers []) (entry 0) =
     (log_action 0 CloseStdin two_servers, Inl (OSError ''Broken pipe''))"
  by (simp add: shutdown_server_def two_servers_def fresh_def entry_def started_def peer_def Let_def)

lemma two_servers_second:
  "disconnect_loop two_servers [(''cal'', entry 0)] =
     print (disconnect_report ''cal'' (OSError ''Broken pipe'')) (log_action 0 CloseStdin two_servers)"
  by (simp add: disconnect_loop_Cons handle_shutdown_def two_servers_first [simplified])



text \<open>
  Claim C7. Take any entry of the registry and the state \<open>si\<close> the loop of
  \<^verbatim>\<open>disconnect_all\<close> has reached when it comes to that entry, the process having its
  input pipe (as every process started by the client has, see
  \<open>registered_process_has_stdin\<close>). The loop continues from the outcome of
  \<^verbatim>\<open>shutdown_server\<close> in \<open>si\<close>. The calls this step makes on the process are an initial
  part of: close the input, wait with the timeout of 2 seconds, send the termination
  signal, wait without timeout. The signal is among them exactly when closing did not
  raise, the return code was unset and the timed wait ran out: a process that exits within
  the window gets no signal. When closing does not raise, the calls are the first two,
  followed after a timeout by the signal and (unless sending it raised) the final wait.
\<close>

theorem shutdown_graceful_then_forced:
  assumes "servers s = xs @ (name, server) # ys"
    and "si = disconnect_loop s xs"
    and "pr = procs si (process server)"
    and "has_stdin pr"
  shows "disconnect_all s =
           (disconnect_loop (handle_shutdown name (shutdown_server si server)) ys)\<lparr>servers := []\<rparr> \<and>
         graceful_timeout = 2 \<and>
         (\<exists>calls.
            trace (fst (shutdown_server si server)) = trace si @ map (Pair (process server)) calls \<and>
            prefix calls [CloseStdin, WaitFor 2, Terminate, Wait] \<and>
            (Terminate \<in> set calls \<longleftrightarrow>
               close_raises (behaviour pr) = None \<and> returncode pr = None \<and>
               on_wait_for (behaviour pr) = TimesOut) \<and>
            (close_raises (behaviour pr) = None \<longrightarrow>
               calls = [CloseStdin, WaitFor 2] @
                 (if returncode pr = None \<and> on_wait_for (behaviour pr) = TimesOut
                  then Terminate # (if terminate_raises (behaviour pr) = None then [Wait] else [])
                  else [])))"
proof (intro conjI)
  show "disconnect_all s =
      (disconnect_loop (handle_shutdown name (shutdown_server si server)) ys)\<lparr>servers := []\<rparr>"
    by (simp add: disconnect_all_def assms(1,2) disconnect_loop_append disconnect_loop_Cons)
  show "graceful_timeout = 2" by (simp add: graceful_timeout_def)
  define calls where "calls =
     CloseStdin #
       (if close_raises (behaviour pr) \<noteq> None then []
        else WaitFor 2 #
          (if returncode pr = None \<and> on_wait_for (behaviour pr) = TimesOut
           then Terminate # (if terminate_raises (behaviour pr) = None then [Wait] else [])
           else []))"
  have tr: "trace (fst (shutdown_server si server)) = trace si @ map (Pair (process server)) calls"
    using assms(3,4)
    by (simp add: shutdown_server_trace forced_actions_def graceful_timeout_def calls_def)
  have pre: "prefix calls [CloseStdin, WaitFor 2, Terminate, Wait]"
    by (simp add: calls_def)
  have sig: "Terminate \<in> set calls \<longleftrightarrow>
               close_raises (behaviour pr) = None \<and> returncode pr = None \<and>
               on_wait_for (behaviour pr) = TimesOut"
    by (simp add: calls_def)
  have full: "close_raises (behaviour pr) = None \<longrightarrow>
               calls = [CloseStdin, WaitFor 2] @
                 (if returncode pr = None \<and> on_wait_for (behaviour pr) = TimesOut
                  then Terminate # (if terminate_raises (behaviour pr) = None then [Wait] else [])
                  else [])"
    by (simp add: calls_def)
  show "\<exists>calls.
            trace (fst (shutdown_server si server)) = trace si @ map (Pair (process server)) calls \<and>
            prefix calls [CloseStdin, WaitFor 2, Terminate, Wait] \<and>
            (Terminate \<in> set calls \<longleftrightarrow>
               close_raises (behaviour pr) = None \<and> returncode pr = None \<and>
               on_wait_for (behaviour pr) = TimesOut) \<and>
            (close_raises (behaviour pr) = None \<longrightarrow>
               calls = [CloseStdin, WaitFor 2] @
                 (if returncode pr = None \<and> on_wait_for (behaviour pr) = TimesOut
                  then Terminate # (if terminate_raises (behaviour pr) = None then [Wait] else [])
                  else []))"
    by (rule exI [of _ calls], intro conjI) (rule tr, rule pre, rule sig, rule full)
qed

theorem shutdown_graceful_then_forced_witness:
  "trace (fst (shutdown_server (disconnect_loop two_servers [(''cal'', entry 0)]) (entry 1))) =
     trace (disconnect_loop two_servers [(''cal'', entry 0)]) @
       [(1, CloseStdin), (1, WaitFor 2), (1, Terminate), (1, Wait)] \<and>
   trace (fst (shutdown_server cal_ready (entry 0\<lparr>available_tools := cal_tools\<rparr>))) =
     trace cal_ready @ [(0, CloseStdin), (0, WaitFor 2)]"
proof -
  define si where "si = disconnect_loop two_servers [(''cal'', entry 0)]"
  define pr where "pr = procs si (process (entry 1))"
  have pr: "pr = started ((peer [])\<lparr>on_wait_for := TimesOut\<rparr>)"
    unfolding pr_def si_def two_servers_second
    by (simp add: two_servers_def fresh_def entry_def)
  have a: "servers two_servers = [(''cal'', entry 0)] @ (''mail'', entry 1) # []"
    by (simp add: two_servers_def fresh_def)
  have b: "has_stdin pr" "close_raises (behaviour pr) = None"
    by (simp_all add: pr started_def peer_def)
  from shutdown_graceful_then_forced [OF a si_def pr_def b(1)] b(2)
  obtain calls where
    "trace (fst (shutdown_server si (entry 1))) = trace si @ map (Pair (process (entry 1))) calls"
    "calls = [CloseStdin, WaitFor 2] @
       (if returncode pr = None \<and> on_wait_for (behaviour pr) = TimesOut
        then Terminate # (if terminate_raises (behaviour pr) = None then [Wait] else [])
        else [])"
    by blast
  then have 1: "trace (fst (shutdown_server si (entry 1))) =
     trace si @ [(1, CloseStdin), (1, WaitFor 2), (1, Terminate), (1, Wait)]"
    by (simp add: pr started_def peer_def entry_def)
  define pr0 where "pr0 = procs cal_ready (process (entry 0\<lparr>available_tools := cal_tools\<rparr>))"
  have pr0: "pr0 = started (cal_peer\<lparr>replies := drop 2 (replies cal_peer)\<rparr>)"
    by (simp add: pr0_def cal_ready_def fresh_def entry_def)
  have a0: "servers cal_ready = [] @ (''cal'', entry 0\<lparr>available_tools := cal_tools\<rparr>) # []"
    by (simp add: cal_ready_def fresh_def)
  have s0: "cal_ready = disconnect_loop cal_ready []" by simp
  have b0: "has_stdin pr0" "close_raises (behaviour pr0) = None"
    by (simp_all add: pr0 started_def cal_peer_def peer_def)
  from shutdown_graceful_then_forced [OF a0 s0 pr0_def b0(1)] b0(2)
  obtain calls0 where
    "trace (fst (shutdown_server cal_ready (entry 0\<lparr>available_tools := cal_tools\<rparr>))) =
       trace cal_ready @ map (Pair (process (entry 0\<lparr>available_tools := cal_tools\<rparr>))) calls0"
    "calls0 = [CloseStdin, WaitFor 2] @
       (if returncode pr0 = None \<and> on_wait_for (behaviour pr0) = TimesOut
        then Terminate # (if terminate_raises (behaviour pr0) = None then [Wait] else [])
        else [])"
    by blast
  then have 2: "trace (fst (shutdown_server cal_ready (entry 0\<lparr>available_tools := cal_tools\<rparr>))) =
     trace cal_ready @ [(0, CloseStdin), (0, WaitFor 2)]"
    by (simp add: pr0 started_def cal_peer_def peer_def entry_def)
  from 1 2 show ?thesis by (simp add: si_def)
qed

subsection \<open>Request ids\<close>

lemma written_append: "written (t @ u) = written t @ written u"
  by (induction t rule: written.induct) simp_all

lemma id_of_requests [simp]:
  "id_of (init_request i) = Some i"
  "id_of (tools_request i) = Some i"
  "id_of (tool_request i t a) = Some i"
  by (simp_all add: id_of_def init_request_def tools_request_def tool_request_def)

lemma issued_write:
  "trace s' = trace s @ [(p, Write r)] \<Longrightarrow> issued s' = issued s @ [id_of r]"
  by (simp add: issued_def written_append)

lemma counted_step:
  assumes "counted s" and "issued s' = issued s @ [Some (request_id s + 1)]"
    and "request_id s' = request_id s + 1"
  shows "counted s'"
proof -
  from assms(1) have n: "0 \<le> request_id s" and i: "issued s = map Some [1..request_id s]"
    by (simp_all add: counted_def)
  have "[1..request_id s + 1] = [1..request_id s] @ [request_id s + 1]"
    using upto_rec2 [of 1 "request_id s + 1"] n by simp
  with assms(2,3) i n show ?thesis by (simp add: counted_def)
qed

lemma counted_same:
  "counted s \<Longrightarrow> issued s' = issued s \<Longrightarrow> request_id s' = request_id s \<Longrightarrow> counted s'"
  by (simp add: counted_def)

lemma counted_cong:
  "trace s' = trace s \<Longrightarrow> request_id s' = request_id s \<Longrightarrow> counted s' = counted s"
  by (simp add: counted_def issued_def)

lemma counted_init: "trace s0 = [] \<Longrightarrow> counted (init s0)"
  by (simp add: counted_def issued_def init_def)

text \<open>One request: an id is taken and the request carrying it is written.\<close>

lemma set_alist_update:
  "(k', v') \<in> set (AList.update k v al) \<Longrightarrow> (k', v') = (k, v) \<or> (k', v') \<in> set al"
  by (induction al) (auto split: if_splits)

lemma request_effect:
  assumes "map_of (servers s) name = Some server"
    and "id_of (mk (request_id s + 1)) = Some (request_id s + 1)"
    and "send_request (s\<lparr>request_id := request_id s + 1\<rparr>) name (mk (request_id s + 1)) = (s', r)"
  shows "request_id s' = request_id s + 1"
    and "trace s' = trace s @ [(process server, Write (mk (request_id s + 1)))]"
    and "servers s' = servers s"
    and "next_pid s' = next_pid s"
    and "counted s \<Longrightarrow> counted s'"
    and "has_stdin (procs s' q) = has_stdin (procs s q)"
proof -
  let ?s1 = "s\<lparr>request_id := request_id s + 1\<rparr>"
  let ?rq = "mk (request_id s + 1)"
  have s': "s' = fst (send_request ?s1 name ?rq)" using assms(3) by simp
  show rid: "request_id s' = request_id s + 1" by (simp add: s')
  show tr: "trace s' = trace s @ [(process server, Write ?rq)]"
    using assms(1) by (simp add: s' send_request_trace)
  show "servers s' = servers s" by (simp add: s')
  show "next_pid s' = next_pid s" by (simp add: s')
  show "has_stdin (procs s' q) = has_stdin (procs s q)" by (simp add: s')
  show "counted s'" if "counted s"
    using that issued_write [OF tr] rid assms(2) by (simp add: counted_step [of s s'])
qed

lemma initialize_server_effect:
  assumes srv: "map_of (servers s) name = Some server"
    and init: "initialize_server s name = (s', r)"
  shows "\<exists>rest. trace s' = trace s @ (process server, Write (init_request (request_id s + 1))) # rest"
    and "request_id s < request_id s'"
    and "counted s \<Longrightarrow> counted s'"
    and "next_pid s' = next_pid s"
    and "piped s \<Longrightarrow> piped s'"
proof -
  let ?s1 = "s\<lparr>request_id := request_id s + 1\<rparr>"
  obtain s2 r1 where r1: "send_request ?s1 name (init_request (request_id s + 1)) = (s2, r1)"
    by (cases "send_request ?s1 name (init_request (request_id s + 1))")
  note e1 = request_effect [of s name server init_request, OF srv _ r1, simplified]
  have srv2: "map_of (servers s2) name = Some server" using srv e1(3) by simp
  let ?s3 = "s2\<lparr>request_id := request_id s2 + 1\<rparr>"
  obtain s4 r2 where r2: "send_request ?s3 name (tools_request (request_id s2 + 1)) = (s4, r2)"
    by (cases "send_request ?s3 name (tools_request (request_id s2 + 1))")
  note e2 = request_effect [of s2 name server tools_request, OF srv2 _ r2, simplified]
  have pipes2: "piped s2" if "piped s"
    using that e1(3,6) by (simp add: piped_def)
  have pipes4: "piped s4" if "piped s"
    using pipes2 [OF that] e2(3,6) by (simp add: piped_def)
  have unfolded: "initialize_server s name =
      (case r1 of
         Inl e \<Rightarrow> (s2, Inl (initialize_error name e))
       | Inr response \<Rightarrow>
           (case r2 of
              Inl e \<Rightarrow> (s4, Inl (initialize_error name e))
            | Inr tools_response \<Rightarrow>
                (case discovered_tools tools_response of
                   Inl e \<Rightarrow> (s4, Inl (initialize_error name e))
                 | Inr None \<Rightarrow> (s4, Inr ())
                 | Inr (Some tools) \<Rightarrow>
                     (s4\<lparr>servers := AList.update name (server\<lparr>available_tools := tools\<rparr>) (servers s4)\<rparr>,
                      Inr ()))))"
    by (simp add: initialize_server_def next_request_id_def srv r1 r2 split: sum.splits)
  consider (a) "s' = s2" | (b) "s' = s4"
    | (c) tools where "s' = s4\<lparr>servers := AList.update name (server\<lparr>available_tools := tools\<rparr>) (servers s4)\<rparr>"
  proof (cases r1)
    case (Inl e)
    with init unfolded have "s' = s2" by simp
    then show ?thesis by (rule that(1))
  next
    case r1': (Inr response)
    show ?thesis
    proof (cases r2)
      case (Inl e)
      with init unfolded r1' have "s' = s4" by simp
      then show ?thesis by (rule that(2))
    next
      case r2': (Inr tools_response)
      show ?thesis
      proof (cases "discovered_tools tools_response")
        case (Inl e)
        with init unfolded r1' r2' have "s' = s4" by simp
        then show ?thesis by (rule that(2))
      next
        case (Inr ot)
        show ?thesis
        proof (cases ot)
          case None
          with init unfolded r1' r2' Inr have "s' = s4" by simp
          then show ?thesis by (rule that(2))
        next
          case (Some tools)
          with init unfolded r1' r2' Inr
          have "s' = s4\<lparr>servers := AList.update name (server\<lparr>available_tools := tools\<rparr>) (servers s4)\<rparr>"
            by simp
          then show ?thesis by (rule that(3))
        qed
      qed
    qed
  qed
  then have "(\<exists>rest. trace s' = trace s @ (process server, Write (init_request (request_id s + 1))) # rest)
      \<and> request_id s < request_id s' \<and> (counted s \<longrightarrow> counted s') \<and> next_pid s' = next_pid s
      \<and> (piped s \<longrightarrow> piped s')"
  proof cases
    case a
    then show ?thesis using e1(1,2,4,5) pipes2 by simp
  next
    case b
    then show ?thesis using e1(1,2,4,5) e2(1,2,4,5) pipes4 by simp
  next
    case c
    have "counted s4 \<Longrightarrow> counted s'"
      by (rule counted_same [of s4]) (simp_all add: c issued_def)
    moreover have "piped s'" if "piped s"
    proof -
      have in4: "(name, server) \<in> set (servers s4)"
        using srv e1(3) e2(3) by (simp add: map_of_SomeD)
      have "has_stdin (procs s4 (process sv))" if "(n, sv) \<in> set (servers s')" for n sv
      proof -
        from that have "(n, sv) = (name, server\<lparr>available_tools := tools\<rparr>) \<or> (n, sv) \<in> set (servers s4)"
          using set_alist_update [of n sv name "server\<lparr>available_tools := tools\<rparr>" "servers s4"]
          by (simp add: c)
        then show ?thesis using pipes4 [OF \<open>piped s\<close>] in4 by (auto simp: piped_def)
      qed
      then show ?thesis by (auto simp: piped_def c)
    qed
    ultimately show ?thesis using e1(1,2,4,5) e2(1,2,4,5) by (auto simp: c)
  qed
  then show "\<exists>rest. trace s' = trace s @ (process server, Write (init_request (request_id s + 1))) # rest"
    and "request_id s < request_id s'" and "counted s \<Longrightarrow> counted s'" and "next_pid s' = next_pid s"
    and "piped s \<Longrightarrow> piped s'"
    by simp_all
qed

lemma connect_server_effect:
  assumes "connect_server (Spawned sc) s name cmd cfg = (s', r)"
  shows "\<exists>rest. trace s' = trace s @ (next_pid s, Write (init_request (request_id s + 1))) # rest"
    and "request_id s < request_id s'"
    and "counted s \<Longrightarrow> counted s'"
    and "piped s \<Longrightarrow> piped s'"
proof -
  define srv where "srv = \<lparr>process = next_pid s, command = cmd,
      args = (case cfg_args cfg of None \<Rightarrow> [] | Some a \<Rightarrow> a), available_tools = JList []\<rparr>"
  define s2 where "s2 = s\<lparr>procs := (procs s)(next_pid s :=
        \<lparr>has_stdin = True, returncode = None, behaviour = sc, proc_command = cmd,
         proc_args = (case cfg_args cfg of None \<Rightarrow> [] | Some a \<Rightarrow> a),
         proc_env = dict_update (environ s) (case cfg_env cfg of None \<Rightarrow> [] | Some e \<Rightarrow> e)\<rparr>),
      next_pid := next_pid s + 1,
      servers := AList.update name srv (servers s)\<rparr>"
  have conn: "connect_server (Spawned sc) s name cmd cfg =
      (case initialize_server s2 name of
         (s3, Inl e) \<Rightarrow> (s3, Inl (connect_error name e)) | (s3, Inr u) \<Rightarrow> (s3, Inr ()))"
    by (simp add: connect_server_def Let_def s2_def srv_def)
  obtain r0 where init: "initialize_server s2 name = (s', r0)"
    using assms by (cases "initialize_server s2 name") (auto simp: conn split: sum.splits)
  have present: "map_of (servers s2) name = Some srv" by (simp add: s2_def update_conv')
  have same: "trace s2 = trace s" "request_id s2 = request_id s" by (simp_all add: s2_def)
  note e = initialize_server_effect [OF present init]
  show "\<exists>rest. trace s' = trace s @ (next_pid s, Write (init_request (request_id s + 1))) # rest"
    using e(1) by (simp add: same srv_def)
  show "request_id s < request_id s'" using e(2) by (simp add: same)
  show "counted s'" if "counted s"
    using e(3) that counted_cong [OF same] by simp
  show "piped s'" if "piped s"
  proof -
    have "has_stdin (procs s2 (process sv))" if "(n, sv) \<in> set (servers s2)" for n sv
    proof -
      from that have "(n, sv) = (name, srv) \<or> (n, sv) \<in> set (servers s)"
        using set_alist_update [of n sv name srv "servers s"] by (simp add: s2_def)
      then show ?thesis using \<open>piped s\<close> by (auto simp: piped_def s2_def srv_def)
    qed
    then have "piped s2" by (auto simp: piped_def)
    then show ?thesis by (rule e(5))
  qed
qed

lemma call_tool_effect:
  "request_id s \<le> request_id (fst (call_tool s server_name tool_name arguments))"
  "counted s \<Longrightarrow> counted (fst (call_tool s server_name tool_name arguments))"
  "piped s \<Longrightarrow> piped (fst (call_tool s server_name tool_name arguments))"
proof -
  let ?s' = "fst (call_tool s server_name tool_name arguments)"
  have "request_id s \<le> request_id ?s' \<and> (counted s \<longrightarrow> counted ?s') \<and> (piped s \<longrightarrow> piped ?s')"
  proof (cases "map_of (servers s) server_name")
    case None
    then show ?thesis by (simp add: call_tool_def)
  next
    case (Some server)
    show ?thesis
    proof (cases "available_tool_names server")
      case (Inl e)
      with Some show ?thesis by (simp add: call_tool_def)
    next
      case (Inr names)
      show ?thesis
      proof (cases "JStr tool_name \<in> set names")
        case False
        with Some Inr show ?thesis by (simp add: call_tool_def)
      next
        case True
        let ?mk = "\<lambda>i. tool_request i tool_name arguments"
        obtain s2 r where sr:
          "send_request (s\<lparr>request_id := request_id s + 1\<rparr>) server_name (?mk (request_id s + 1)) = (s2, r)"
          by (cases "send_request (s\<lparr>request_id := request_id s + 1\<rparr>) server_name (?mk (request_id s + 1))")
        note e = request_effect [of s server_name server ?mk, OF Some _ sr, simplified]
        have "?s' = s2"
          using Some Inr True sr
          by (simp add: call_tool_def next_request_id_def split: sum.splits)
        then show ?thesis using e by (simp add: piped_def)
      qed
    qed
  qed
  then show "request_id s \<le> request_id ?s'" and "counted s \<Longrightarrow> counted ?s'"
    and "piped s \<Longrightarrow> piped ?s'"
    by simp_all
qed

lemma written_shutdown_server:
  "written (trace (fst (shutdown_server s server))) = written (trace s)"
  by (simp add: shutdown_server_trace written_append forced_actions_def)

lemma written_disconnect_loop:
  "written (trace (disconnect_loop s xs)) = written (trace s)"
proof (induction xs arbitrary: s)
  case Nil
  show ?case by simp
next
  case (Cons x xs)
  obtain name server where x: "x = (name, server)" by (cases x)
  show ?case
    by (simp add: x disconnect_loop_Cons Cons.IH written_shutdown_server)
qed

lemma disconnect_all_effect:
  "request_id (disconnect_all s) = request_id s"
  "counted (disconnect_all s) = counted s"
  by (simp_all add: disconnect_all_def counted_def issued_def written_disconnect_loop)

lemma step_effect:
  "request_id s \<le> request_id (step s op)"
  "counted s \<Longrightarrow> counted (step s op)"
  "piped s \<Longrightarrow> piped (step s op)"
proof -
  have "request_id s \<le> request_id (step s op) \<and> (counted s \<longrightarrow> counted (step s op)) \<and>
      (piped s \<longrightarrow> piped (step s op))"
  proof (cases op)
    case (Connect spawn name cmd cfg)
    show ?thesis
    proof (cases spawn)
      case (SpawnRaises m)
      then show ?thesis by (simp add: Connect connect_server_spawn_raises)
    next
      case (Spawned sc)
      obtain s' r where c: "connect_server (Spawned sc) s name cmd cfg = (s', r)"
        by (cases "connect_server (Spawned sc) s name cmd cfg")
      from connect_server_effect(2,3,4) [OF c] show ?thesis
        by (simp add: Connect Spawned c)
    qed
  next
    case (CallTool server_name tool_name arguments)
    then show ?thesis using call_tool_effect [of s server_name tool_name arguments] by simp
  next
    case DisconnectAll
    have "piped (disconnect_all s)" by (simp add: piped_def disconnect_all_def)
    then show ?thesis by (simp add: DisconnectAll disconnect_all_effect)
  next
    case (ProcessExits p code)
    then show ?thesis by (auto simp: counted_def issued_def piped_def)
  qed
  then show "request_id s \<le> request_id (step s op)" and "counted s \<Longrightarrow> counted (step s op)"
    and "piped s \<Longrightarrow> piped (step s op)"
    by simp_all
qed

lemma run_Cons: "run s (op # ops) = run (step s op) ops"
  by (simp add: run_def)

lemma run_effect:
  "request_id s \<le> request_id (run s ops)"
  "counted s \<Longrightarrow> counted (run s ops)"
  "piped s \<Longrightarrow> piped (run s ops)"
proof -
  have "request_id s \<le> request_id (run s ops) \<and> (counted s \<longrightarrow> counted (run s ops)) \<and>
      (piped s \<longrightarrow> piped (run s ops))"
  proof (induction ops arbitrary: s)
    case Nil
    show ?case by (simp add: run_def)
  next
    case (Cons op ops)
    from Cons.IH [of "step s op"] step_effect [of s op]
    show ?case by (auto simp: run_Cons)
  qed
  then show "request_id s \<le> request_id (run s ops)" and "counted s \<Longrightarrow> counted (run s ops)"
    and "piped s \<Longrightarrow> piped (run s ops)"
    by simp_all
qed

text \<open>
  In a state reached by calls on a new client, every registered process has its input
  pipe when the loop of \<^verbatim>\<open>disconnect_all\<close> comes to it.
\<close>

lemma registered_process_has_stdin:
  assumes "s = run (init s0) ops" and "servers s = xs @ (name, server) # ys"
  shows "has_stdin (procs (disconnect_loop s xs) (process server))"
proof -
  have "piped (init s0)" by (simp add: piped_def init_def)
  then have "piped s" unfolding assms(1) by (rule run_effect(3))
  then show ?thesis using assms(2) by (simp add: piped_def)
qed

lemma run_after_connect:
  assumes "Connect (Spawned sc) name cmd cfg \<in> set ops"
  shows "request_id s < request_id (run s ops)"
  using assms
proof (induction ops arbitrary: s)
  case Nil
  then show ?case by simp
next
  case (Cons op ops)
  show ?case
  proof (cases "op = Connect (Spawned sc) name cmd cfg")
    case True
    obtain s' r where c: "connect_server (Spawned sc) s name cmd cfg = (s', r)"
      by (cases "connect_server (Spawned sc) s name cmd cfg")
    from connect_server_effect(2) [OF c] have "request_id s < request_id (step s op)"
      by (simp add: True c)
    also have "\<dots> \<le> request_id (run (step s op) ops)" by (rule run_effect(1))
    finally show ?thesis by (simp add: run_Cons)
  next
    case False
    with Cons.prems have "Connect (Spawned sc) name cmd cfg \<in> set ops" by simp
    from Cons.IH [OF this, of "step s op"] step_effect(1) [of s op]
    show ?thesis by (simp add: run_Cons)
  qed
qed


lemma init_fresh: "init fresh = fresh"
  by (simp add: init_def fresh_def)

lemma run_one_connect:
  "run (init fresh) [Connect (Spawned cal_peer) ''cal'' ''npx'' no_config] = cal_ready"
  by (simp add: run_def init_fresh cal_connected)

text \<open>
  Claim C9. The counter is one field of the client. After any sequence of calls on a new
  client, the ids of all requests written, to whatever process, are \<open>1, 2, \<dots>\<close> up to the
  value of the counter, in the order of writing: no id occurs twice. A further
  \<^verbatim>\<open>connect_server\<close> whose process starts writes \<^verbatim>\<open>initialize\<close> with the next value of the
  counter as its first request, and once an earlier connect has started a process that
  value is greater than 1.
\<close>

theorem request_ids_shared_counter:
  assumes "trace s0 = []" and "s = run (init s0) ops"
  shows "issued s = map Some [1..request_id s] \<and> distinct (issued s) \<and>
         ((\<exists>sc1 n1 c1 f1. Connect (Spawned sc1) n1 c1 f1 \<in> set ops) \<longrightarrow>
            (\<exists>rest. trace (fst (connect_server (Spawned sc) s name cmd cfg)) =
                      trace s @ (next_pid s, Write (init_request (request_id s + 1))) # rest) \<and>
            1 < request_id s + 1)"
proof (intro conjI impI)
  have c: "counted s"
    unfolding assms(2) by (rule run_effect(2)) (rule counted_init [OF assms(1)])
  then show i: "issued s = map Some [1..request_id s]" by (simp add: counted_def)
  show "distinct (issued s)" unfolding i by (simp add: distinct_map)
  obtain s' r where conn: "connect_server (Spawned sc) s name cmd cfg = (s', r)"
    by (cases "connect_server (Spawned sc) s name cmd cfg")
  from connect_server_effect(1) [OF conn]
  show "\<exists>rest. trace (fst (connect_server (Spawned sc) s name cmd cfg)) =
                      trace s @ (next_pid s, Write (init_request (request_id s + 1))) # rest"
    by (simp add: conn)
  assume "\<exists>sc1 n1 c1 f1. Connect (Spawned sc1) n1 c1 f1 \<in> set ops"
  then obtain sc1 n1 c1 f1 where "Connect (Spawned sc1) n1 c1 f1 \<in> set ops" by blast
  from run_after_connect [OF this, of "init s0"] have "0 < request_id s"
    by (simp add: assms(2) init_def)
  then show "1 < request_id s + 1" by simp
qed

theorem request_ids_shared_counter_witness:
  "issued cal_ready = [Some 1, Some 2] \<and>
   (\<exists>rest. trace (fst (connect_server (Spawned cal_peer) cal_ready ''mail'' ''npx'' no_config)) =
             trace cal_ready @ (1, Write (init_request 3)) # rest)"
proof -
  have a: "trace fresh = []" by (simp add: fresh_def)
  have b: "\<exists>sc1 n1 c1 f1. Connect (Spawned sc1) n1 c1 f1 \<in>
      set [Connect (Spawned cal_peer) ''cal'' ''npx'' no_config]"
    by auto
  have c: "request_id cal_ready = 2" "next_pid cal_ready = 1"
    by (simp_all add: cal_ready_def fresh_def)
  from request_ids_shared_counter [OF a run_one_connect [symmetric],
      of cal_peer "''mail''" "''npx''" no_config] b
  show ?thesis by (simp add: c upto_rec1)
qed




end
